theory Spec2Isabelle
  imports Main "HOL-Library.Word"
begin

section \<open>Go values used by package age\<close>

text \<open>
  A Go \<^verbatim>\<open>[]byte\<close> is a list of 8-bit words. Where the code tests a slice against
  \<^verbatim>\<open>nil\<close> (the variable \<^verbatim>\<open>fileKey\<close> of \<^verbatim>\<open>Decrypt\<close>), the slice is a
  \<open>gobytes\<close>: \<open>None\<close> is the nil slice. Where the code only reads the length and the
  contents, nil and the empty slice are the same list \<open>[]\<close>.
  Go's \<^verbatim>\<open>int\<close> is taken to be 64 bits wide; values are mathematical integers and the
  one operation that can leave the range, the shift \<^verbatim>\<open>1<<logN\<close>, is computed on a
  64-bit word.
\<close>

type_synonym byte = "8 word"
type_synonym bytes = "byte list"
type_synonym gobytes = "bytes option"

definition bytes_of :: "string \<Rightarrow> bytes" where
  \<comment> \<open>the conversion \<^verbatim>\<open>[]byte(s)\<close>\<close>
  "bytes_of s = map of_char s"

definition shl1 :: "int \<Rightarrow> int" where
  \<comment> \<open>\<^verbatim>\<open>1<<n\<close> on a 64-bit \<^verbatim>\<open>int\<close>, for a shift count \<open>n \<ge> 0\<close>\<close>
  "shl1 n = sint (push_bit (nat n) (1 :: 64 word))"

text \<open>
  An \<^verbatim>\<open>error\<close> value is either the package's sentinel \<^verbatim>\<open>ErrIncorrectIdentity\<close>,
  which the code compares by identity, or any other error, kept as its message. Errors
  of the libraries the package calls (\<^verbatim>\<open>format\<close>, \<^verbatim>\<open>stream\<close>, \<^verbatim>\<open>strconv\<close>,
  \<^verbatim>\<open>x/crypto\<close>, \<^verbatim>\<open>crypto/rand\<close>) are never the sentinel: those functions return
  their failure as a message, of type \<open>string\<close>.
\<close>

datatype error = ErrIncorrectIdentity | Err string

fun Error :: "error \<Rightarrow> string" where
  \<comment> \<open>the method \<^verbatim>\<open>err.Error()\<close>, which \<^verbatim>\<open>%v\<close> prints\<close>
  "Error ErrIncorrectIdentity = ''incorrect identity for recipient block''"
| "Error (Err m) = m"

text \<open>A call either returns or panics.\<close>

datatype 'a res = Return 'a | Panic string

subsection \<open>Decimal rendering of integers\<close>

definition digit_char :: "nat \<Rightarrow> char" where
  "digit_char d = ''0123456789'' ! d"

fun digits :: "nat \<Rightarrow> string" where
  "digits n = (if n < 10 then [digit_char n] else digits (n div 10) @ [digit_char (n mod 10)])"

declare digits.simps [simp del]

definition Itoa :: "int \<Rightarrow> string" where
  \<comment> \<open>\<^verbatim>\<open>strconv.Itoa\<close>; \<^verbatim>\<open>%v\<close> and \<^verbatim>\<open>%d\<close> print an \<^verbatim>\<open>int\<close> the same way\<close>
  "Itoa n = (if n < 0 then CHR ''-'' # digits (nat (- n)) else digits (nat n))"

subsection \<open>Stanzas and headers (package format)\<close>

record stanza =
  \<comment> \<open>\<^verbatim>\<open>format.Recipient\<close>\<close>
  Type :: string
  Args :: "string list"
  Body :: bytes

record header =
  \<comment> \<open>\<^verbatim>\<open>format.Header\<close>\<close>
  Recipients :: "stanza list"
  MAC :: bytes

subsection \<open>What is observed of a call\<close>

text \<open>
  The order in which the code calls its collaborators is part of several properties, so
  the functions below return, beside their result, the list of the calls they made.
\<close>

datatype event =
    EvScryptKey bytes bytes int
    \<comment> \<open>\<^verbatim>\<open>scrypt.Key(password, salt, N, 8, 1, 32)\<close>\<close>
  | EvParse
    \<comment> \<open>\<^verbatim>\<open>format.Parse(src)\<close>\<close>
  | EvMatch nat stanza
    \<comment> \<open>\<^verbatim>\<open>identities[j].Match(r)\<close>\<close>
  | EvUnwrap nat stanza
    \<comment> \<open>\<^verbatim>\<open>identities[j].Unwrap(r)\<close>\<close>
  | EvHeaderMAC bytes
    \<comment> \<open>\<^verbatim>\<open>headerMAC(fileKey, hdr)\<close>\<close>
  | EvReadNonce
    \<comment> \<open>\<^verbatim>\<open>io.ReadFull(payload, nonce)\<close>\<close>
  | EvNewReader bytes bytes
    \<comment> \<open>\<^verbatim>\<open>stream.NewReader(streamKey(fileKey, nonce), payload)\<close>\<close>
  | EvWrap nat
    \<comment> \<open>\<^verbatim>\<open>recipients[i].Wrap(fileKey)\<close>\<close>
  | EvMarshal header
    \<comment> \<open>\<^verbatim>\<open>hdr.Marshal(dst)\<close>\<close>
  | EvWrite bytes
    \<comment> \<open>\<^verbatim>\<open>dst.Write(nonce)\<close>\<close>
  | EvNewWriter bytes
    \<comment> \<open>\<^verbatim>\<open>stream.NewWriter(streamKey(fileKey, nonce), dst)\<close>\<close>

fun emit :: "event list \<Rightarrow> event list \<times> 'a \<Rightarrow> event list \<times> 'a" where
  "emit es (t, x) = (es @ t, x)"

subsection \<open>Collaborators\<close>

text \<open>
  The functions of other packages, and the helpers of this package that live in a file
  outside the two under study (\<^verbatim>\<open>aeadEncrypt\<close>, \<^verbatim>\<open>aeadDecrypt\<close>, \<^verbatim>\<open>headerMAC\<close>,
  \<^verbatim>\<open>streamKey\<close>), are parameters: every theorem holds for whatever they compute.
  A function that returns \<^verbatim>\<open>(T, error)\<close> and whose value the code reads only when the
  error is nil is a function into \<open>string + T\<close>, \<open>Inl\<close> carrying the error's message.
\<close>

record deps =
  DecodeString :: "string \<Rightarrow> string + bytes"
  EncodeToString :: "bytes \<Rightarrow> string"
  Atoi :: "string \<Rightarrow> string + int"
  scrypt_Key :: "bytes \<Rightarrow> bytes \<Rightarrow> int \<Rightarrow> int \<Rightarrow> int \<Rightarrow> int \<Rightarrow> string + bytes"
  X25519 :: "bytes \<Rightarrow> bytes \<Rightarrow> string + bytes"
  hkdf_sha256 :: "bytes \<Rightarrow> bytes \<Rightarrow> bytes \<Rightarrow> nat \<Rightarrow> string + bytes"
  aeadEncrypt :: "bytes \<Rightarrow> bytes \<Rightarrow> string + bytes"
  aeadDecrypt :: "bytes \<Rightarrow> bytes \<Rightarrow> string + gobytes"
  headerMAC :: "bytes \<Rightarrow> header \<Rightarrow> string + bytes"
  streamKey :: "bytes \<Rightarrow> bytes \<Rightarrow> bytes"

text \<open>
  \<^verbatim>\<open>rand.Read(b)\<close> on a fresh buffer of \<open>n\<close> zero bytes: the random source is a state
  \<open>'g\<close>, a read returns an error message or the bytes it produced, and the buffer holds
  the first \<open>n\<close> of them.
\<close>

type_synonym 'g rand = "'g \<Rightarrow> nat \<Rightarrow> (string + bytes) \<times> 'g"

definition fill :: "nat \<Rightarrow> bytes \<Rightarrow> bytes" where
  "fill n bs = take n (bs @ replicate n 0)"

definition scryptLabel :: string where
  "scryptLabel = ''age-encryption.org/v1/scrypt''"

definition KeySize :: int where
  \<comment> \<open>\<^verbatim>\<open>chacha20poly1305.KeySize\<close>\<close>
  "KeySize = 32"

section \<open>The scrypt scheme\<close>

record ScryptRecipient =
  password :: bytes
  workFactor :: int

definition NewScryptRecipient :: "string \<Rightarrow> error + ScryptRecipient" where
  "NewScryptRecipient pw =
     (if length pw = 0 then Inl (Err ''passphrase can't be empty'')
      else Inr \<lparr>password = bytes_of pw, workFactor = 18\<rparr>)"

definition SetWorkFactor :: "ScryptRecipient \<Rightarrow> int \<Rightarrow> ScryptRecipient res" where
  "SetWorkFactor r logN =
     (if logN > 30 \<or> logN < 1 then Panic ''age: SetWorkFactor called with illegal value''
      else Return (r\<lparr>workFactor := logN\<rparr>))"

definition ScryptRecipient_Wrap ::
  "deps \<Rightarrow> 'g rand \<Rightarrow> ScryptRecipient \<Rightarrow> bytes \<Rightarrow> 'g \<Rightarrow> (event list \<times> (error + stanza) res) \<times> 'g" where
  "ScryptRecipient_Wrap d rand_Read r fileKey g =
     (case rand_Read g 16 of
        (Inl e, g') \<Rightarrow> (([], Return (Inl (Err e))), g')
      | (Inr rnd, g') \<Rightarrow>
          (let salt = fill 16 rnd;
               logN = workFactor r;
               l = \<lparr>Type = ''scrypt'', Args = [EncodeToString d salt, Itoa logN], Body = []\<rparr>;
               salt = bytes_of scryptLabel @ salt
           in if logN < 0 then (([], Panic ''runtime error: negative shift amount''), g')
              else
                (case scrypt_Key d (ScryptRecipient.password r) salt (shl1 logN) 8 1 KeySize of
                   Inl e \<Rightarrow>
                     (([EvScryptKey (ScryptRecipient.password r) salt (shl1 logN)],
                       Return (Inl (Err (''failed to generate scrypt hash: '' @ e)))), g')
                 | Inr k \<Rightarrow>
                     (case aeadEncrypt d k fileKey of
                        Inl e \<Rightarrow>
                          (([EvScryptKey (ScryptRecipient.password r) salt (shl1 logN)],
                            Return (Inl (Err e))), g')
                      | Inr wrappedKey \<Rightarrow>
                          (([EvScryptKey (ScryptRecipient.password r) salt (shl1 logN)],
                            Return (Inr (l\<lparr>Body := wrappedKey\<rparr>))), g')))))"

record ScryptIdentity =
  password :: bytes
  maxWorkFactor :: int

definition NewScryptIdentity :: "string \<Rightarrow> error + ScryptIdentity" where
  "NewScryptIdentity pw =
     (if length pw = 0 then Inl (Err ''passphrase can't be empty'')
      else Inr \<lparr>ScryptIdentity.password = bytes_of pw, maxWorkFactor = 22\<rparr>)"

definition SetMaxWorkFactor :: "ScryptIdentity \<Rightarrow> int \<Rightarrow> ScryptIdentity res" where
  "SetMaxWorkFactor i logN =
     (if logN > 30 \<or> logN < 1 then Panic ''age: SetMaxWorkFactor called with illegal value''
      else Return (i\<lparr>maxWorkFactor := logN\<rparr>))"

text \<open>
  \<^verbatim>\<open>Unwrap\<close> returns the pair \<^verbatim>\<open>(fileKey, err)\<close> as Go does: every failing return
  carries the nil slice.
\<close>

definition fatal :: "string \<Rightarrow> gobytes \<times> error option" where
  \<comment> \<open>\<^verbatim>\<open>return nil, errors.New(m)\<close> and \<^verbatim>\<open>return nil, fmt.Errorf(...)\<close>\<close>
  "fatal m = (None, Some (Err m))"

definition ScryptIdentity_Unwrap ::
  "deps \<Rightarrow> ScryptIdentity \<Rightarrow> stanza \<Rightarrow> event list \<times> (gobytes \<times> error option)" where
  "ScryptIdentity_Unwrap d i block =
     (if Type block \<noteq> ''scrypt'' then ([], (None, Some ErrIncorrectIdentity))
      else
        (case Args block of
           [a0, a1] \<Rightarrow>
             (case DecodeString d a0 of
                Inl e \<Rightarrow> ([], fatal (''failed to parse scrypt salt: '' @ e))
              | Inr salt \<Rightarrow>
                  if length salt \<noteq> 16 then ([], fatal ''invalid scrypt recipient block'')
                  else
                    (case Atoi d a1 of
                       Inl e \<Rightarrow> ([], fatal (''failed to parse scrypt work factor: '' @ e))
                     | Inr logN \<Rightarrow>
                         if logN > maxWorkFactor i
                         then ([], fatal (''scrypt work factor too large: '' @ Itoa logN))
                         else if logN \<le> 0
                         then ([], fatal (''invalid scrypt work factor: '' @ Itoa logN))
                         else
                           (let salt = bytes_of scryptLabel @ salt;
                                kdf = EvScryptKey (ScryptIdentity.password i) salt (shl1 logN)
                            in case scrypt_Key d (ScryptIdentity.password i) salt (shl1 logN) 8 1 KeySize of
                                 Inl e \<Rightarrow> ([kdf], fatal (''failed to generate scrypt hash: '' @ e))
                               | Inr k \<Rightarrow>
                                   (case aeadDecrypt d k (Body block) of
                                      Inl e \<Rightarrow> ([kdf], (None, Some ErrIncorrectIdentity))
                                    | Inr fileKey \<Rightarrow> ([kdf], (fileKey, None))))))
         | _ \<Rightarrow> ([], fatal ''invalid scrypt recipient block'')))"

section \<open>The X25519 scheme\<close>

definition x25519Label :: string where
  "x25519Label = ''age-encryption.org/v1/X25519''"

definition PointSize :: nat where
  \<comment> \<open>\<^verbatim>\<open>curve25519.PointSize\<close>\<close>
  "PointSize = 32"

definition ScalarSize :: nat where
  \<comment> \<open>\<^verbatim>\<open>curve25519.ScalarSize\<close>\<close>
  "ScalarSize = 32"

definition Basepoint :: bytes where
  \<comment> \<open>\<^verbatim>\<open>curve25519.Basepoint\<close>\<close>
  "Basepoint = 9 # replicate 31 0"

record X25519Recipient =
  theirPublicKey :: bytes

definition NewX25519Recipient :: "bytes \<Rightarrow> error + X25519Recipient" where
  "NewX25519Recipient publicKey =
     (if length publicKey \<noteq> PointSize then Inl (Err ''invalid X25519 public key'')
      else Inr \<lparr>theirPublicKey = publicKey\<rparr>)"

definition X25519Recipient_Wrap ::
  "deps \<Rightarrow> 'g rand \<Rightarrow> X25519Recipient \<Rightarrow> bytes \<Rightarrow> 'g \<Rightarrow> (error + stanza) \<times> 'g" where
  "X25519Recipient_Wrap d rand_Read r fileKey g =
     (case rand_Read g ScalarSize of
        (Inl e, g') \<Rightarrow> (Inl (Err e), g')
      | (Inr rnd, g') \<Rightarrow>
          (let ephemeral = fill ScalarSize rnd
           in case X25519 d ephemeral Basepoint of
                Inl e \<Rightarrow> (Inl (Err e), g')
              | Inr ourPublicKey \<Rightarrow>
                  (case X25519 d ephemeral (theirPublicKey r) of
                     Inl e \<Rightarrow> (Inl (Err e), g')
                   | Inr sharedSecret \<Rightarrow>
                       (let l = \<lparr>Type = ''X25519'', Args = [EncodeToString d ourPublicKey],
                                 Body = []\<rparr>;
                            salt = ourPublicKey @ theirPublicKey r
                        in case hkdf_sha256 d sharedSecret salt (bytes_of x25519Label) 32 of
                             Inl e \<Rightarrow> (Inl (Err e), g')
                           | Inr wrappingKey \<Rightarrow>
                               (case aeadEncrypt d wrappingKey fileKey of
                                  Inl e \<Rightarrow> (Inl (Err e), g')
                                | Inr wrappedKey \<Rightarrow> (Inr (l\<lparr>Body := wrappedKey\<rparr>), g'))))))"

record X25519Identity =
  secretKey :: bytes
  ourPublicKey :: bytes

definition NewX25519Identity :: "deps \<Rightarrow> bytes \<Rightarrow> error + X25519Identity" where
  \<comment> \<open>the error of \<^verbatim>\<open>curve25519.X25519\<close> is dropped; the public key is then nil\<close>
  "NewX25519Identity d sk =
     (if length sk \<noteq> ScalarSize then Inl (Err ''invalid X25519 secret key'')
      else Inr \<lparr>secretKey = sk,
                ourPublicKey = (case X25519 d sk Basepoint of Inl e \<Rightarrow> [] | Inr p \<Rightarrow> p)\<rparr>)"

definition X25519Identity_Unwrap ::
  "deps \<Rightarrow> X25519Identity \<Rightarrow> stanza \<Rightarrow> gobytes \<times> error option" where
  "X25519Identity_Unwrap d i block =
     (if Type block \<noteq> ''X25519'' then (None, Some ErrIncorrectIdentity)
      else
        (case Args block of
           [a0] \<Rightarrow>
             (case DecodeString d a0 of
                Inl e \<Rightarrow> fatal (''failed to parse X25519 recipient: '' @ e)
              | Inr publicKey \<Rightarrow>
                  if length publicKey \<noteq> PointSize then fatal ''invalid X25519 recipient block''
                  else
                    (case X25519 d (secretKey i) publicKey of
                       Inl e \<Rightarrow> fatal (''invalid X25519 recipient: '' @ e)
                     | Inr sharedSecret \<Rightarrow>
                         (let salt = publicKey @ ourPublicKey i
                          in case hkdf_sha256 d sharedSecret salt (bytes_of x25519Label) 32 of
                               Inl e \<Rightarrow> fatal e
                             | Inr wrappingKey \<Rightarrow>
                                 (case aeadDecrypt d wrappingKey (Body block) of
                                    Inl e \<Rightarrow> (None, Some ErrIncorrectIdentity)
                                  | Inr fileKey \<Rightarrow> (fileKey, None)))))
         | _ \<Rightarrow> fatal ''invalid X25519 recipient block''))"

definition Recipient :: "X25519Identity \<Rightarrow> X25519Recipient" where
  "Recipient i = \<lparr>theirPublicKey = ourPublicKey i\<rparr>"

section \<open>The file pipeline\<close>

subsection \<open>The interfaces\<close>

text \<open>
  An \<^verbatim>\<open>Identity\<close> is its method set: \<open>IMatch\<close> is \<open>Some\<close> when the value also
  implements \<^verbatim>\<open>IdentityMatcher\<close>. \<open>IUnwrap\<close> returns Go's pair and the calls the
  method made. A \<^verbatim>\<open>Recipient\<close> may draw from the random source.
\<close>

record identity =
  IType :: string
  IMatch :: "(stanza \<Rightarrow> error option) option"
  IUnwrap :: "stanza \<Rightarrow> event list \<times> (gobytes \<times> error option)"

record 'g recipient =
  RType :: string
  RWrap :: "bytes \<Rightarrow> 'g \<Rightarrow> (error + stanza) \<times> 'g"

definition ScryptIdentity_identity :: "deps \<Rightarrow> ScryptIdentity \<Rightarrow> identity" where
  "ScryptIdentity_identity d i =
     \<lparr>IType = ''scrypt'', IMatch = None, IUnwrap = ScryptIdentity_Unwrap d i\<rparr>"

definition X25519Identity_identity :: "deps \<Rightarrow> X25519Identity \<Rightarrow> identity" where
  "X25519Identity_identity d i =
     \<lparr>IType = ''X25519'', IMatch = None, IUnwrap = (\<lambda>block. ([], X25519Identity_Unwrap d i block))\<rparr>"

definition X25519Recipient_recipient :: "deps \<Rightarrow> 'g rand \<Rightarrow> X25519Recipient \<Rightarrow> 'g recipient" where
  "X25519Recipient_recipient d rand_Read r =
     \<lparr>RType = ''X25519'', RWrap = X25519Recipient_Wrap d rand_Read r\<rparr>"

text \<open>The reader and writer sides: the header codec, the streams and the caller's I/O.\<close>

record ('src, 'p, 'rd) reader_deps =
  Parse :: "'src \<Rightarrow> string + header \<times> 'p"
  ReadFull :: "'p \<Rightarrow> nat \<Rightarrow> (string + bytes) \<times> 'p"
  NewReader :: "bytes \<Rightarrow> 'p \<Rightarrow> string + 'rd"

record ('w, 'wr) writer_deps =
  Marshal :: "header \<Rightarrow> 'w \<Rightarrow> string option \<times> 'w"
  Write :: "'w \<Rightarrow> bytes \<Rightarrow> string option \<times> 'w"
  NewWriter :: "bytes \<Rightarrow> 'w \<Rightarrow> string + 'wr"

subsection \<open>Decrypt\<close>

text \<open>
  The inner loop over \<^verbatim>\<open>identities\<close> for one stanza \<open>r\<close>; \<open>j\<close> is the index of the
  identity at the head of the list and \<open>fk\<close> the current value of the variable
  \<^verbatim>\<open>fileKey\<close>, which every call of \<^verbatim>\<open>Unwrap\<close> assigns. The loop ends by running
  out of identities, by \<^verbatim>\<open>break RecipientsLoop\<close> or by \<^verbatim>\<open>return nil, err\<close>.
\<close>

datatype scan = Continue gobytes | Break gobytes | Abort error

fun call_Unwrap ::
  "stanza \<Rightarrow> nat \<Rightarrow> identity \<Rightarrow> (gobytes \<Rightarrow> event list \<times> scan) \<Rightarrow> event list \<times> scan" where
  "call_Unwrap r j i rest =
     (case IUnwrap i r of
        (ev, (fileKey, Some err)) \<Rightarrow>
          if err = ErrIncorrectIdentity then emit (EvUnwrap j r # ev) (rest fileKey)
          else (EvUnwrap j r # ev, Abort err)
      | (ev, (fileKey, None)) \<Rightarrow> (EvUnwrap j r # ev, Break fileKey))"

fun try_identities :: "stanza \<Rightarrow> nat \<Rightarrow> identity list \<Rightarrow> gobytes \<Rightarrow> event list \<times> scan" where
  "try_identities r j [] fk = ([], Continue fk)"
| "try_identities r j (i # is) fk =
     (if IType i \<noteq> Type r then try_identities r (Suc j) is fk
      else
        (case IMatch i of
           Some m \<Rightarrow>
             (case m r of
                Some err \<Rightarrow>
                  if err = ErrIncorrectIdentity
                  then emit [EvMatch j r] (try_identities r (Suc j) is fk)
                  else ([EvMatch j r], Abort err)
              | None \<Rightarrow> emit [EvMatch j r] (call_Unwrap r j i (try_identities r (Suc j) is)))
         | None \<Rightarrow> call_Unwrap r j i (try_identities r (Suc j) is)))"

text \<open>The loop labelled \<^verbatim>\<open>RecipientsLoop\<close>; \<open>n\<close> is \<^verbatim>\<open>len(hdr.Recipients)\<close>.\<close>

fun RecipientsLoop ::
  "nat \<Rightarrow> stanza list \<Rightarrow> identity list \<Rightarrow> gobytes \<Rightarrow> event list \<times> (error + gobytes)" where
  "RecipientsLoop n [] ids fk = ([], Inr fk)"
| "RecipientsLoop n (r # rs) ids fk =
     (if Type r = ''scrypt'' \<and> n \<noteq> 1
      then ([], Inl (Err ''an scrypt recipient must be the only one''))
      else
        (case try_identities r 0 ids fk of
           (ev, Abort err) \<Rightarrow> (ev, Inl err)
         | (ev, Break fk') \<Rightarrow> (ev, Inr fk')
         | (ev, Continue fk') \<Rightarrow> emit ev (RecipientsLoop n rs ids fk')))"

text \<open>The rest of \<^verbatim>\<open>Decrypt\<close> once \<^verbatim>\<open>fileKey\<close> is not nil: header MAC, nonce, stream.\<close>

definition Decrypt_payload ::
  "deps \<Rightarrow> ('src, 'p, 'rd) reader_deps \<Rightarrow> header \<Rightarrow> 'p \<Rightarrow> bytes \<Rightarrow> event list \<times> (error + 'rd)" where
  "Decrypt_payload d io hdr payload fileKey =
     (case headerMAC d fileKey hdr of
        Inl e \<Rightarrow> ([EvHeaderMAC fileKey], Inl (Err (''failed to compute header MAC: '' @ e)))
      | Inr mac \<Rightarrow>
          if mac \<noteq> MAC hdr then ([EvHeaderMAC fileKey], Inl (Err ''bad header MAC''))
          else
            (case ReadFull io payload 16 of
               (Inl e, payload') \<Rightarrow>
                 ([EvHeaderMAC fileKey, EvReadNonce], Inl (Err (''failed to read nonce: '' @ e)))
             | (Inr nonce, payload') \<Rightarrow>
                 ([EvHeaderMAC fileKey, EvReadNonce, EvNewReader fileKey nonce],
                  (case NewReader io (streamKey d fileKey nonce) payload' of
                     Inl e \<Rightarrow> Inl (Err e)
                   | Inr rd \<Rightarrow> Inr rd))))"

definition Decrypt ::
  "deps \<Rightarrow> ('src, 'p, 'rd) reader_deps \<Rightarrow> 'src \<Rightarrow> identity list \<Rightarrow> event list \<times> (error + 'rd)" where
  "Decrypt d io src identities =
     (if length identities = 0 then ([], Inl (Err ''no identities specified''))
      else
        (case Parse io src of
           Inl e \<Rightarrow> ([EvParse], Inl (Err (''failed to read header: '' @ e)))
         | Inr (hdr, payload) \<Rightarrow>
             if length (Recipients hdr) > 20 then ([EvParse], Inl (Err ''too many recipients''))
             else
               (case RecipientsLoop (length (Recipients hdr)) (Recipients hdr) identities None of
                  (ev, Inl err) \<Rightarrow> (EvParse # ev, Inl err)
                | (ev, Inr None) \<Rightarrow> (EvParse # ev, Inl (Err ''no identity matched a recipient''))
                | (ev, Inr (Some fileKey)) \<Rightarrow>
                    emit (EvParse # ev) (Decrypt_payload d io hdr payload fileKey))))"

subsection \<open>Encrypt\<close>

text \<open>
  The loop over \<^verbatim>\<open>recipients\<close>: \<open>n\<close> is \<^verbatim>\<open>len(recipients)\<close>, \<open>i\<close> the index of the
  recipient at the head of the list and \<open>acc\<close> the stanzas appended to the header so far.
\<close>

fun wrap_recipients ::
  "nat \<Rightarrow> nat \<Rightarrow> 'g recipient list \<Rightarrow> bytes \<Rightarrow> stanza list \<Rightarrow> 'g
     \<Rightarrow> (event list \<times> (error + stanza list)) \<times> 'g" where
  "wrap_recipients n i [] fileKey acc g = (([], Inr acc), g)"
| "wrap_recipients n i (r # rs) fileKey acc g =
     (if RType r = ''scrypt'' \<and> n \<noteq> 1
      then (([], Inl (Err ''an scrypt recipient must be the only one'')), g)
      else
        (case RWrap r fileKey g of
           (Inl err, g') \<Rightarrow>
             (([EvWrap i],
               Inl (Err (''failed to wrap key for recipient #'' @ Itoa (int i) @ '': '' @ Error err))),
              g')
         | (Inr block, g') \<Rightarrow>
             (case wrap_recipients n (Suc i) rs fileKey (acc @ [block]) g' of
                (out, g'') \<Rightarrow> (emit [EvWrap i] out, g''))))"

text \<open>
  \<^verbatim>\<open>Encrypt\<close> returns its result, the calls it made, the random source and the
  destination \<open>dst\<close> as it leaves them.
\<close>

definition Encrypt ::
  "deps \<Rightarrow> 'g rand \<Rightarrow> ('w, 'wr) writer_deps \<Rightarrow> 'w \<Rightarrow> 'g recipient list \<Rightarrow> 'g
     \<Rightarrow> (event list \<times> (error + 'wr)) \<times> 'g \<times> 'w" where
  "Encrypt d rand_Read io dst recipients g =
     (if length recipients = 0 then (([], Inl (Err ''no recipients specified'')), g, dst)
      else
        (case rand_Read g 16 of
           (Inl e, g1) \<Rightarrow> (([], Inl (Err e)), g1, dst)
         | (Inr rnd, g1) \<Rightarrow>
             (let fileKey = fill 16 rnd
              in case wrap_recipients (length recipients) 0 recipients fileKey [] g1 of
                   ((ev, Inl err), g2) \<Rightarrow> ((ev, Inl err), g2, dst)
                 | ((ev, Inr blocks), g2) \<Rightarrow>
                     (case headerMAC d fileKey \<lparr>Recipients = blocks, MAC = []\<rparr> of
                        Inl e \<Rightarrow>
                          ((ev @ [EvHeaderMAC fileKey],
                            Inl (Err (''failed to compute header MAC: '' @ e))), g2, dst)
                      | Inr mac \<Rightarrow>
                          (let hdr = \<lparr>Recipients = blocks, MAC = mac\<rparr>;
                               ev = ev @ [EvHeaderMAC fileKey, EvMarshal hdr]
                           in case Marshal io hdr dst of
                                (Some e, dst1) \<Rightarrow>
                                  ((ev, Inl (Err (''failed to write header: '' @ e))), g2, dst1)
                              | (None, dst1) \<Rightarrow>
                                  (case rand_Read g2 16 of
                                     (Inl e, g3) \<Rightarrow> ((ev, Inl (Err e)), g3, dst1)
                                   | (Inr rnd', g3) \<Rightarrow>
                                       (let nonce = fill 16 rnd';
                                            ev = ev @ [EvWrite nonce]
                                        in case Write io dst1 nonce of
                                             (Some e, dst2) \<Rightarrow>
                                               ((ev, Inl (Err (''failed to write nonce: '' @ e))),
                                                g3, dst2)
                                           | (None, dst2) \<Rightarrow>
                                               ((ev @ [EvNewWriter (streamKey d fileKey nonce)],
                                                 (case NewWriter io (streamKey d fileKey nonce) dst2 of
                                                    Inl e \<Rightarrow> Inl (Err e)
                                                  | Inr w \<Rightarrow> Inr w)),
                                                g3, dst2))))))))"

section \<open>The scan of \<^verbatim>\<open>Decrypt\<close>, as the specification words it\<close>

text \<open>
  One identity tried on one stanza has one of three outcomes. The probe calls
  \<^verbatim>\<open>Match\<close> first when the identity has it, and \<^verbatim>\<open>Unwrap\<close> only when the match did
  not object.
\<close>

datatype outcome = Incorrect | Fatal error | Found gobytes

definition unwrap_outcome :: "nat \<Rightarrow> identity \<Rightarrow> stanza \<Rightarrow> event list \<times> outcome" where
  "unwrap_outcome j i r =
     (case IUnwrap i r of
        (ev, (k, None)) \<Rightarrow> (EvUnwrap j r # ev, Found k)
      | (ev, (k, Some err)) \<Rightarrow>
          (EvUnwrap j r # ev, if err = ErrIncorrectIdentity then Incorrect else Fatal err))"

definition probe :: "nat \<Rightarrow> identity \<Rightarrow> stanza \<Rightarrow> event list \<times> outcome" where
  "probe j i r =
     (case IMatch i of
        None \<Rightarrow> unwrap_outcome j i r
      | Some m \<Rightarrow>
          (case m r of
             None \<Rightarrow> emit [EvMatch j r] (unwrap_outcome j i r)
           | Some err \<Rightarrow>
               ([EvMatch j r], if err = ErrIncorrectIdentity then Incorrect else Fatal err)))"

text \<open>
  The candidates, stanza-major and identity-minor: for each stanza in header order, the
  identities of its type in the caller's order, each with its index.
\<close>

definition candidates_of :: "stanza \<Rightarrow> identity list \<Rightarrow> (stanza \<times> nat \<times> identity) list" where
  "candidates_of r ids =
     map (\<lambda>(j, i). (r, j, i)) (filter (\<lambda>(j, i). IType i = Type r) (enumerate 0 ids))"

definition candidates :: "stanza list \<Rightarrow> identity list \<Rightarrow> (stanza \<times> nat \<times> identity) list" where
  "candidates rs ids = concat (map (\<lambda>r. candidates_of r ids) rs)"

text \<open>
  The candidates are probed in order; an incorrect identity moves on to the next
  candidate, anything else ends the scan. \<open>Incorrect\<close> at the end: no candidate unwrapped.
\<close>

fun first_outcome :: "(stanza \<times> nat \<times> identity) list \<Rightarrow> event list \<times> outcome" where
  "first_outcome [] = ([], Incorrect)"
| "first_outcome ((r, j, i) # cs) =
     (case probe j i r of
        (ev, Incorrect) \<Rightarrow> emit ev (first_outcome cs)
      | (ev, out) \<Rightarrow> (ev, out))"

definition lone_scrypt :: "nat \<Rightarrow> stanza \<Rightarrow> bool" where
  \<comment> \<open>the stanza passes the check at the head of the loop body, in a header of \<open>n\<close> stanzas\<close>
  "lone_scrypt n r = (\<not> (Type r = ''scrypt'' \<and> n \<noteq> 1))"

text \<open>What the end of the inner loop means for the scan.\<close>

fun scan_outcome :: "scan \<Rightarrow> outcome" where
  "scan_outcome (Continue fk) = Incorrect"
| "scan_outcome (Break fk) = Found fk"
| "scan_outcome (Abort err) = Fatal err"

definition is_call :: "event \<Rightarrow> bool" where
  \<comment> \<open>a call of an identity's \<^verbatim>\<open>Match\<close> or \<^verbatim>\<open>Unwrap\<close>, or of the scrypt function\<close>
  "is_call e = (case e of EvMatch j r \<Rightarrow> True | EvUnwrap j r \<Rightarrow> True
                | EvScryptKey p s n \<Rightarrow> True | _ \<Rightarrow> False)"

definition is_write :: "event \<Rightarrow> bool" where
  \<comment> \<open>a call that writes to the destination\<close>
  "is_write e = (case e of EvMarshal h \<Rightarrow> True | EvWrite b \<Rightarrow> True
                 | EvNewWriter k \<Rightarrow> True | _ \<Rightarrow> False)"

section \<open>Concrete collaborators\<close>

text \<open>
  A small executable instance of every collaborator, on which the theorems are
  evaluated: an encoding that maps a byte to the character of the same code and
  decodes at most 64 characters, a decimal
  parser, key agreement by bytewise addition, an authenticated cipher whose tag is the
  first half of the key, and a random source that counts down and fails at zero.
\<close>

definition digit_of :: "char \<Rightarrow> nat option" where
  "digit_of c = (let v = of_char c in if 48 \<le> v \<and> v \<le> 57 then Some (v - 48) else None)"

fun parse_digits :: "nat \<Rightarrow> string \<Rightarrow> nat option" where
  "parse_digits acc [] = Some acc"
| "parse_digits acc (c # cs) =
     (case digit_of c of None \<Rightarrow> None | Some v \<Rightarrow> parse_digits (10 * acc + v) cs)"

definition parse_decimal :: "string \<Rightarrow> string + int" where
  "parse_decimal s =
     (let neg = (s \<noteq> [] \<and> hd s = CHR ''-'');
          body = (if s \<noteq> [] \<and> (hd s = CHR ''-'' \<or> hd s = CHR ''+'') then tl s else s)
      in if body = [] then Inl ''invalid syntax''
         else
           (case parse_digits 0 body of
              None \<Rightarrow> Inl ''invalid syntax''
            | Some v \<Rightarrow>
                (let n = (if neg then - int v else int v)
                 in if n < - (2 ^ 63) \<or> 2 ^ 63 \<le> n then Inl ''value out of range''
                    else Inr n)))"

definition add_bytes :: "bytes \<Rightarrow> bytes \<Rightarrow> bytes" where
  "add_bytes a b = map2 (+) a b"

definition dh :: "bytes \<Rightarrow> bytes \<Rightarrow> string + bytes" where
  "dh scalar point =
     (if length scalar \<noteq> 32 \<or> length point \<noteq> 32 then Inl ''bad input length''
      else Inr (add_bytes scalar point))"

definition seal :: "bytes \<Rightarrow> bytes \<Rightarrow> string + bytes" where
  "seal key plaintext =
     (if length key \<noteq> 32 then Inl ''bad key length'' else Inr (plaintext @ take 16 key))"

definition unseal :: "bytes \<Rightarrow> bytes \<Rightarrow> string + gobytes" where
  "unseal key ciphertext =
     (let n = length ciphertext - 16
      in if length key \<noteq> 32 \<or> length ciphertext < 16 \<or> drop n ciphertext \<noteq> take 16 key
         then Inl ''message authentication failed''
         else Inr (if n = 0 then None else Some (take n ciphertext)))"

definition deps0 :: deps where
  "deps0 =
     \<lparr>DecodeString = (\<lambda>s. if 64 < length s then Inl ''input too long'' else Inr (bytes_of s)),
      EncodeToString = map (\<lambda>b. char_of (unat b)),
      Atoi = parse_decimal,
      scrypt_Key = (\<lambda>pw salt N r p keyLen.
                      if N \<le> 1 then Inl ''N must be > 1 and a power of 2''
                      else Inr (fill (nat keyLen) (word_of_int N # pw @ salt))),
      X25519 = dh,
      hkdf_sha256 = (\<lambda>secret salt info L. Inr (fill L (secret @ salt @ info))),
      aeadEncrypt = seal,
      aeadDecrypt = unseal,
      headerMAC = (\<lambda>k hdr. Inr (fill 32 (k @ concat (map Body (Recipients hdr))))),
      streamKey = (\<lambda>k nonce. fill 32 (nonce @ k))\<rparr>"

definition rand0 :: "nat rand" where
  "rand0 g n =
     (if g = 0 then (Inl ''entropy source failed'', 0) else (Inr (replicate n (of_nat g)), g - 1))"

definition reader0 :: "(string + header \<times> bytes, bytes, bytes \<times> bytes) reader_deps" where
  \<comment> \<open>the source is the outcome of parsing it; the payload is the bytes that remain\<close>
  "reader0 =
     \<lparr>Parse = (\<lambda>src. src),
      ReadFull = (\<lambda>p n. if n \<le> length p then (Inr (take n p), drop n p)
                         else (Inl (if p = [] then ''EOF'' else ''unexpected EOF''), [])),
      NewReader = (\<lambda>key p. Inr (key, p))\<rparr>"

definition writer0 :: "(bytes, bytes \<times> bytes) writer_deps" where
  "writer0 =
     \<lparr>Marshal = (\<lambda>hdr w. (None, w @ concat (map Body (Recipients hdr)) @ MAC hdr)),
      Write = (\<lambda>w b. (None, w @ b)),
      NewWriter = (\<lambda>key w. Inr (key, w))\<rparr>"

text \<open>Sample values: a passphrase recipient and identity as their constructors make them.\<close>

definition r0 :: ScryptRecipient where
  "r0 = \<lparr>ScryptRecipient.password = bytes_of ''pw'', workFactor = 18\<rparr>"

definition i0 :: ScryptIdentity where
  "i0 = \<lparr>ScryptIdentity.password = bytes_of ''pw'', maxWorkFactor = 22\<rparr>"

text \<open>An X25519 identity as \<^verbatim>\<open>NewX25519Identity\<close> makes it from 32 bytes of value 3.\<close>

definition x0 :: X25519Identity where
  "x0 = \<lparr>secretKey = replicate 32 3, ourPublicKey = 12 # replicate 31 3\<rparr>"

text \<open>
  An identity is well behaved on a candidate when its \<^verbatim>\<open>Unwrap\<close> returns the nil key
  together with any error, as the two identities of the package do.
\<close>

definition nil_key :: "stanza \<times> nat \<times> identity \<Rightarrow> bool" where
  "nil_key c = (case c of (r, j, i) \<Rightarrow>
      (case IUnwrap i r of
         (ev, (k, None)) \<Rightarrow> True
       | (ev, (k, Some err)) \<Rightarrow> k = None))"

text \<open>
  A file key, the stanza that wraps it for \<open>x0\<close> (made with the ephemeral secret of 32
  bytes of value 5), a stanza of the same sender with a body that does not authenticate,
  and an scrypt stanza.
\<close>

definition fk0 :: bytes where
  "fk0 = replicate 16 7"

definition l0 :: stanza where
  "l0 = \<lparr>Type = ''X25519'', Args = [CHR 0x0E # replicate 31 (CHR 0x05)],
         Body = replicate 16 7 @ 17 # replicate 15 8\<rparr>"

definition l1 :: stanza where
  "l1 = \<lparr>Type = ''X25519'', Args = [CHR 0x0E # replicate 31 (CHR 0x05)], Body = replicate 32 0\<rparr>"

definition s0 :: stanza where
  "s0 = \<lparr>Type = ''scrypt'', Args = [''0123456789abcdef'', ''10''], Body = []\<rparr>"

text \<open>
  Three identities: the passphrase, an X25519 identity with a match probe that accepts
  bodies of 32 bytes and unwraps nothing, and \<open>x0\<close>.
\<close>

definition id_x0 :: identity where
  "id_x0 = X25519Identity_identity deps0 x0"

definition id_s0 :: identity where
  "id_s0 = ScryptIdentity_identity deps0 i0"

definition id_m0 :: identity where
  "id_m0 = \<lparr>IType = ''X25519'',
            IMatch = Some (\<lambda>r. if length (Body r) = 32 then None else Some ErrIncorrectIdentity),
            IUnwrap = (\<lambda>r. ([], (None, Some ErrIncorrectIdentity)))\<rparr>"

definition ids0 :: "identity list" where
  "ids0 = [id_s0, id_m0, id_x0]"

text \<open>Headers over these stanzas, a payload, and the calls of a scan of \<open>hdr0\<close>.\<close>

definition hdr0 :: header where
  "hdr0 = \<lparr>Recipients = [l1, l0], MAC = replicate 16 7 @ replicate 16 0\<rparr>"

definition pl0 :: bytes where
  "pl0 = replicate 16 9 @ [1, 2, 3]"

definition tr0 :: "event list" where
  "tr0 = [EvMatch 1 l1, EvUnwrap 1 l1, EvUnwrap 2 l1, EvMatch 1 l0, EvUnwrap 1 l0, EvUnwrap 2 l0]"

definition hdr21 :: header where
  "hdr21 = \<lparr>Recipients = s0 # replicate 20 l0, MAC = []\<rparr>"

definition hdr2 :: header where
  "hdr2 = \<lparr>Recipients = [l0, s0], MAC = replicate 32 7\<rparr>"

text \<open>
  Three recipients: the one of \<open>x0\<close>, one of type \<open>scrypt\<close>, and one whose
  \<^verbatim>\<open>Wrap\<close> fails.
\<close>

definition rc_x0 :: "nat recipient" where
  "rc_x0 = X25519Recipient_recipient deps0 rand0 (Recipient x0)"

definition rc_s0 :: "nat recipient" where
  "rc_s0 = \<lparr>RType = ''scrypt'', RWrap = (\<lambda>fileKey g. (Inr s0, g))\<rparr>"

definition rc_f0 :: "nat recipient" where
  "rc_f0 = \<lparr>RType = ''X25519'', RWrap = (\<lambda>fileKey g. (Inl (Err ''no key''), g))\<rparr>"

section \<open>The scrypt work factor\<close>

lemma shl1_small: "0 \<le> n \<Longrightarrow> n \<le> 62 \<Longrightarrow> shl1 n = 2 ^ nat n"
proof -
  assume a: "0 \<le> n" "n \<le> 62"
  have lt: "nat n < 63" using a by simp
  have up: "(2::int) ^ nat n < 2 ^ 63" by (rule power_strict_increasing) (use lt in simp_all)
  have lo: "- (2 ^ 63) \<le> (2::int) ^ nat n"
    by (rule order_trans [of _ 0]) simp_all
  have stb: "signed_take_bit 63 ((2::int) ^ nat n) = 2 ^ nat n"
    using up lo by (simp only: signed_take_bit_int_eq_self)
  have "sint (word_of_int (2 ^ nat n) :: 64 word) = signed_take_bit (LENGTH(64) - 1) (2 ^ nat n)"
    by (rule sint_sbintrunc')
  then have "sint (2 ^ nat n :: 64 word) = signed_take_bit 63 (2 ^ nat n)"
    by simp
  then show ?thesis
    by (simp add: shl1_def stb)
qed

lemma Wrap_after_set:
  assumes "1 \<le> logN" "logN \<le> 30" "rand_Read g 16 = (Inr rnd, g')"
  shows "\<exists>out. ScryptRecipient_Wrap d rand_Read (r\<lparr>workFactor := logN\<rparr>) fileKey g =
                 (([EvScryptKey (ScryptRecipient.password r)
                      (bytes_of scryptLabel @ fill 16 rnd) (2 ^ nat logN)], Return out), g') \<and>
               (\<forall>l. out = Inr l \<longrightarrow>
                  Type l = ''scrypt'' \<and>
                  Args l = [EncodeToString d (fill 16 rnd), Itoa logN])"
proof -
  have s: "shl1 logN = 2 ^ nat logN" using assms by (intro shl1_small) simp_all
  show ?thesis
    using assms by (auto simp: ScryptRecipient_Wrap_def Let_def s split: sum.splits)
qed

lemma Unwrap_after_set:
  assumes "DecodeString d a0 = Inr salt" "length salt = 16" "Atoi d a1 = Inr n"
  shows "(ScryptIdentity_Unwrap d (i\<lparr>maxWorkFactor := logN\<rparr>) \<lparr>Type = ''scrypt'', Args = [a0, a1], Body = body\<rparr> =
               ([], fatal (''scrypt work factor too large: '' @ Itoa n))) = (n > logN)"
  using assms by (auto simp: ScryptIdentity_Unwrap_def Let_def fatal_def split: sum.splits)

text \<open>
  C10. \<^verbatim>\<open>SetWorkFactor\<close> and \<^verbatim>\<open>SetMaxWorkFactor\<close> panic for every \<open>logN < 1\<close> and
  every \<open>logN > 30\<close>. For \<open>1 \<le> logN \<le> 30\<close> they return with the stored factor set to
  \<open>logN\<close> and nothing else changed; a \<^verbatim>\<open>Wrap\<close> that follows and gets its salt calls
  scrypt with \<open>N = 2 ^ logN\<close> and writes \<open>logN\<close> in decimal as the second argument of the
  stanza; an \<^verbatim>\<open>Unwrap\<close> that follows rejects a well-formed stanza as too large
  exactly when its work factor exceeds \<open>logN\<close>.
\<close>

theorem work_factor_setters:
  "(logN < 1 \<or> logN > 30 \<longrightarrow>
      SetWorkFactor r logN = Panic ''age: SetWorkFactor called with illegal value'' \<and>
      SetMaxWorkFactor i logN = Panic ''age: SetMaxWorkFactor called with illegal value'') \<and>
   (1 \<le> logN \<and> logN \<le> 30 \<longrightarrow>
      SetWorkFactor r logN = Return (r\<lparr>workFactor := logN\<rparr>) \<and>
      SetMaxWorkFactor i logN = Return (i\<lparr>maxWorkFactor := logN\<rparr>) \<and>
      (\<forall>rnd g'. rand_Read g 16 = (Inr rnd, g') \<longrightarrow>
         (\<exists>out. ScryptRecipient_Wrap d rand_Read (r\<lparr>workFactor := logN\<rparr>) fileKey g =
              (([EvScryptKey (ScryptRecipient.password r)
                   (bytes_of scryptLabel @ fill 16 rnd) (2 ^ nat logN)], Return out), g') \<and>
            (\<forall>l. out = Inr l \<longrightarrow>
               Type l = ''scrypt'' \<and> Args l = [EncodeToString d (fill 16 rnd), Itoa logN]))) \<and>
      (\<forall>a0 a1 body salt n.
         DecodeString d a0 = Inr salt \<and> length salt = 16 \<and> Atoi d a1 = Inr n \<longrightarrow>
         (ScryptIdentity_Unwrap d (i\<lparr>maxWorkFactor := logN\<rparr>)
            \<lparr>Type = ''scrypt'', Args = [a0, a1], Body = body\<rparr> =
          ([], fatal (''scrypt work factor too large: '' @ Itoa n))) = (n > logN)))"
proof (intro conjI impI allI)
  assume "logN < 1 \<or> logN > 30"
  then show "SetWorkFactor r logN = Panic ''age: SetWorkFactor called with illegal value''"
    by (auto simp: SetWorkFactor_def)
next
  assume "logN < 1 \<or> logN > 30"
  then show "SetMaxWorkFactor i logN = Panic ''age: SetMaxWorkFactor called with illegal value''"
    by (auto simp: SetMaxWorkFactor_def)
next
  assume "1 \<le> logN \<and> logN \<le> 30"
  then show "SetWorkFactor r logN = Return (r\<lparr>workFactor := logN\<rparr>)"
    by (simp add: SetWorkFactor_def)
next
  assume "1 \<le> logN \<and> logN \<le> 30"
  then show "SetMaxWorkFactor i logN = Return (i\<lparr>maxWorkFactor := logN\<rparr>)"
    by (simp add: SetMaxWorkFactor_def)
next
  fix rnd g'
  assume "1 \<le> logN \<and> logN \<le> 30" and "rand_Read g 16 = (Inr rnd, g')"
  then show "\<exists>out. ScryptRecipient_Wrap d rand_Read (r\<lparr>workFactor := logN\<rparr>) fileKey g =
              (([EvScryptKey (ScryptRecipient.password r)
                   (bytes_of scryptLabel @ fill 16 rnd) (2 ^ nat logN)], Return out), g') \<and>
            (\<forall>l. out = Inr l \<longrightarrow>
               Type l = ''scrypt'' \<and> Args l = [EncodeToString d (fill 16 rnd), Itoa logN])"
    by (intro Wrap_after_set) simp_all
next
  fix a0 a1 body salt n
  assume "DecodeString d a0 = Inr salt \<and> length salt = 16 \<and> Atoi d a1 = Inr n"
  then show "(ScryptIdentity_Unwrap d (i\<lparr>maxWorkFactor := logN\<rparr>)
            \<lparr>Type = ''scrypt'', Args = [a0, a1], Body = body\<rparr> =
          ([], fatal (''scrypt work factor too large: '' @ Itoa n))) = (n > logN)"
    using Unwrap_after_set [where d=d and ?a0.0=a0 and salt=salt and ?a1.0=a1 and n=n] by simp
qed

theorem work_factor_setters_witness:
  "((0::int) < 1 \<or> (0::int) > 30) \<and>
   SetWorkFactor r0 0 = Panic ''age: SetWorkFactor called with illegal value'' \<and>
   SetMaxWorkFactor i0 0 = Panic ''age: SetMaxWorkFactor called with illegal value'' \<and>
   (1::int) \<le> 10 \<and> (10::int) \<le> 30 \<and>
   SetWorkFactor r0 10 = Return (r0\<lparr>workFactor := 10\<rparr>) \<and>
   SetMaxWorkFactor i0 10 = Return (i0\<lparr>maxWorkFactor := 10\<rparr>) \<and>
   rand0 5 16 = (Inr (replicate 16 5), 4) \<and>
   (\<exists>out. ScryptRecipient_Wrap deps0 rand0 (r0\<lparr>workFactor := 10\<rparr>) (replicate 16 7) 5 =
      (([EvScryptKey (ScryptRecipient.password r0)
           (bytes_of scryptLabel @ fill 16 (replicate 16 5)) (2 ^ nat 10)], Return out), 4)) \<and>
   DecodeString deps0 ''0123456789abcdef'' = Inr (bytes_of ''0123456789abcdef'') \<and>
   length (bytes_of ''0123456789abcdef'') = 16 \<and>
   Atoi deps0 ''11'' = Inr 11 \<and>
   ScryptIdentity_Unwrap deps0 (i0\<lparr>maxWorkFactor := 10\<rparr>)
      \<lparr>Type = ''scrypt'', Args = [''0123456789abcdef'', ''11''], Body = []\<rparr> =
     ([], fatal (''scrypt work factor too large: '' @ Itoa 11))"
proof -
  have rd: "rand0 5 16 = (Inr (replicate 16 5), 4)"
    by (simp add: rand0_def)
  have dec: "DecodeString deps0 ''0123456789abcdef'' = Inr (bytes_of ''0123456789abcdef'')"
    "length (bytes_of ''0123456789abcdef'') = 16" "Atoi deps0 ''11'' = Inr 11"
    by (simp_all add: deps0_def bytes_of_def parse_decimal_def digit_of_def)
  have lo: "(0::int) < 1 \<or> (0::int) > 30" and mid: "(1::int) \<le> 10 \<and> (10::int) \<le> 30"
    by simp_all
  note t0 = work_factor_setters [of 0 r0 i0 rand0 5 deps0 "replicate 16 7"]
  note t1 = work_factor_setters [of 10 r0 i0 rand0 5 deps0 "replicate 16 7"]
  have a: "SetWorkFactor r0 0 = Panic ''age: SetWorkFactor called with illegal value'' \<and>
    SetMaxWorkFactor i0 0 = Panic ''age: SetMaxWorkFactor called with illegal value''"
    using t0 lo by blast
  have b: "SetWorkFactor r0 10 = Return (r0\<lparr>workFactor := 10\<rparr>) \<and>
    SetMaxWorkFactor i0 10 = Return (i0\<lparr>maxWorkFactor := 10\<rparr>)"
    using t1 mid by blast
  have c: "\<exists>out. ScryptRecipient_Wrap deps0 rand0 (r0\<lparr>workFactor := 10\<rparr>) (replicate 16 7) 5 =
      (([EvScryptKey (ScryptRecipient.password r0)
           (bytes_of scryptLabel @ fill 16 (replicate 16 5)) (2 ^ nat 10)], Return out), 4)"
    using t1 mid rd by blast
  have "(ScryptIdentity_Unwrap deps0 (i0\<lparr>maxWorkFactor := 10\<rparr>)
      \<lparr>Type = ''scrypt'', Args = [''0123456789abcdef'', ''11''], Body = []\<rparr> =
     ([], fatal (''scrypt work factor too large: '' @ Itoa 11))) = ((11::int) > 10)"
    using t1 mid dec by blast
  then have e: "ScryptIdentity_Unwrap deps0 (i0\<lparr>maxWorkFactor := 10\<rparr>)
      \<lparr>Type = ''scrypt'', Args = [''0123456789abcdef'', ''11''], Body = []\<rparr> =
     ([], fatal (''scrypt work factor too large: '' @ Itoa 11))"
    by simp
  show ?thesis
    using a b c e rd dec by simp
qed

section \<open>Unwrapping a scrypt stanza\<close>

lemma scrypt_malformed:
  assumes t: "Type block = ''scrypt''"
    and n: "\<not> (\<exists>a0 a1 salt logN. Args block = [a0, a1] \<and> DecodeString d a0 = Inr salt \<and>
          length salt = 16 \<and> Atoi d a1 = Inr logN \<and> 0 < logN \<and> logN \<le> maxWorkFactor i)"
  shows "\<exists>m. ScryptIdentity_Unwrap d i block = ([], fatal m)"
proof (cases "\<exists>a0 a1. Args block = [a0, a1]")
  case False
  then show ?thesis
    using t by (auto simp: ScryptIdentity_Unwrap_def split: list.splits)
next
  case True
  then obtain a0 a1 where args: "Args block = [a0, a1]" by blast
  show ?thesis
  proof (cases "DecodeString d a0")
    case (Inl e)
    then show ?thesis using t args by (auto simp: ScryptIdentity_Unwrap_def)
  next
    case (Inr salt)
    note dec = this
    show ?thesis
    proof (cases "Atoi d a1")
      case (Inl e)
      then show ?thesis using t args dec by (auto simp: ScryptIdentity_Unwrap_def)
    next
      case (Inr logN)
      then have "length salt \<noteq> 16 \<or> logN \<le> 0 \<or> maxWorkFactor i < logN"
        using n args dec by (meson not_le)
      then show ?thesis
        using t args dec Inr by (auto simp: ScryptIdentity_Unwrap_def)
    qed
  qed
qed


lemma scrypt_well_formed:
  assumes "Type block = ''scrypt''" "Args block = [a0, a1]" "DecodeString d a0 = Inr salt"
    "length salt = 16" "Atoi d a1 = Inr logN"
  shows "ScryptIdentity_Unwrap d i block =
     (if maxWorkFactor i < logN then ([], fatal (''scrypt work factor too large: '' @ Itoa logN))
      else if logN \<le> 0 then ([], fatal (''invalid scrypt work factor: '' @ Itoa logN))
      else
        ([EvScryptKey (ScryptIdentity.password i) (bytes_of scryptLabel @ salt) (shl1 logN)],
         (case scrypt_Key d (ScryptIdentity.password i) (bytes_of scryptLabel @ salt)
                 (shl1 logN) 8 1 KeySize of
            Inl e \<Rightarrow> fatal (''failed to generate scrypt hash: '' @ e)
          | Inr k \<Rightarrow>
              (case aeadDecrypt d k (Body block) of
                 Inl e \<Rightarrow> (None, Some ErrIncorrectIdentity)
               | Inr fileKey \<Rightarrow> (fileKey, None)))))"
  using assms by (simp add: ScryptIdentity_Unwrap_def Let_def split: sum.splits)

text \<open>
  C3. For a stanza of type \<open>scrypt\<close>, \<^verbatim>\<open>ScryptIdentity.Unwrap\<close> fails with a fatal
  error, without calling scrypt, unless the stanza has exactly two arguments, the first
  decodes to exactly 16 bytes and the second parses as an integer \<open>logN\<close> with
  \<open>0 < logN \<le> maxWorkFactor\<close>. Once the salt and the integer are read, a \<open>logN\<close> above
  the maximum is rejected with "scrypt work factor too large" and no call of scrypt; a
  \<open>logN \<le> 0\<close> is rejected with "invalid scrypt work factor" (the maximum is never
  negative: it is 0 in a zero value, 22 by default, and the setter keeps it in 1..30);
  otherwise scrypt is called once, and a body that fails to decrypt gives the incorrect
  identity error. A stanza of another type gives the incorrect identity error.
\<close>

theorem ScryptIdentity_Unwrap_checks:
  "(Type block = ''scrypt'' \<and>
    \<not> (\<exists>a0 a1 salt logN. Args block = [a0, a1] \<and> DecodeString d a0 = Inr salt \<and>
          length salt = 16 \<and> Atoi d a1 = Inr logN \<and> 0 < logN \<and> logN \<le> maxWorkFactor i) \<longrightarrow>
      (\<exists>m. ScryptIdentity_Unwrap d i block = ([], fatal m))) \<and>
   (Type block = ''scrypt'' \<and> Args block = [a0, a1] \<and> DecodeString d a0 = Inr salt \<and>
    length salt = 16 \<and> Atoi d a1 = Inr logN \<longrightarrow>
      (maxWorkFactor i < logN \<longrightarrow>
         ScryptIdentity_Unwrap d i block =
           ([], fatal (''scrypt work factor too large: '' @ Itoa logN))) \<and>
      (logN \<le> 0 \<and> 0 \<le> maxWorkFactor i \<longrightarrow>
         ScryptIdentity_Unwrap d i block =
           ([], fatal (''invalid scrypt work factor: '' @ Itoa logN))) \<and>
      (0 < logN \<and> logN \<le> maxWorkFactor i \<longrightarrow>
         fst (ScryptIdentity_Unwrap d i block) =
           [EvScryptKey (ScryptIdentity.password i) (bytes_of scryptLabel @ salt) (shl1 logN)] \<and>
         (\<forall>k e. scrypt_Key d (ScryptIdentity.password i) (bytes_of scryptLabel @ salt)
                   (shl1 logN) 8 1 KeySize = Inr k \<and>
                 aeadDecrypt d k (Body block) = Inl e \<longrightarrow>
            snd (ScryptIdentity_Unwrap d i block) = (None, Some ErrIncorrectIdentity)))) \<and>
   (Type block \<noteq> ''scrypt'' \<longrightarrow>
      ScryptIdentity_Unwrap d i block = ([], (None, Some ErrIncorrectIdentity)))"
proof (intro conjI)
  show "Type block = ''scrypt'' \<and>
    \<not> (\<exists>a0 a1 salt logN. Args block = [a0, a1] \<and> DecodeString d a0 = Inr salt \<and>
          length salt = 16 \<and> Atoi d a1 = Inr logN \<and> 0 < logN \<and> logN \<le> maxWorkFactor i) \<longrightarrow>
      (\<exists>m. ScryptIdentity_Unwrap d i block = ([], fatal m))"
    using scrypt_malformed [of block d i] by blast
next
  show "Type block = ''scrypt'' \<and> Args block = [a0, a1] \<and> DecodeString d a0 = Inr salt \<and>
    length salt = 16 \<and> Atoi d a1 = Inr logN \<longrightarrow>
      (maxWorkFactor i < logN \<longrightarrow>
         ScryptIdentity_Unwrap d i block =
           ([], fatal (''scrypt work factor too large: '' @ Itoa logN))) \<and>
      (logN \<le> 0 \<and> 0 \<le> maxWorkFactor i \<longrightarrow>
         ScryptIdentity_Unwrap d i block =
           ([], fatal (''invalid scrypt work factor: '' @ Itoa logN))) \<and>
      (0 < logN \<and> logN \<le> maxWorkFactor i \<longrightarrow>
         fst (ScryptIdentity_Unwrap d i block) =
           [EvScryptKey (ScryptIdentity.password i) (bytes_of scryptLabel @ salt) (shl1 logN)] \<and>
         (\<forall>k e. scrypt_Key d (ScryptIdentity.password i) (bytes_of scryptLabel @ salt)
                   (shl1 logN) 8 1 KeySize = Inr k \<and>
                 aeadDecrypt d k (Body block) = Inl e \<longrightarrow>
            snd (ScryptIdentity_Unwrap d i block) = (None, Some ErrIncorrectIdentity)))"
  proof
    assume h: "Type block = ''scrypt'' \<and> Args block = [a0, a1] \<and> DecodeString d a0 = Inr salt \<and>
      length salt = 16 \<and> Atoi d a1 = Inr logN"
    note eq = scrypt_well_formed [of block a0 a1 d salt logN i]
    show "(maxWorkFactor i < logN \<longrightarrow>
         ScryptIdentity_Unwrap d i block =
           ([], fatal (''scrypt work factor too large: '' @ Itoa logN))) \<and>
      (logN \<le> 0 \<and> 0 \<le> maxWorkFactor i \<longrightarrow>
         ScryptIdentity_Unwrap d i block =
           ([], fatal (''invalid scrypt work factor: '' @ Itoa logN))) \<and>
      (0 < logN \<and> logN \<le> maxWorkFactor i \<longrightarrow>
         fst (ScryptIdentity_Unwrap d i block) =
           [EvScryptKey (ScryptIdentity.password i) (bytes_of scryptLabel @ salt) (shl1 logN)] \<and>
         (\<forall>k e. scrypt_Key d (ScryptIdentity.password i) (bytes_of scryptLabel @ salt)
                   (shl1 logN) 8 1 KeySize = Inr k \<and>
                 aeadDecrypt d k (Body block) = Inl e \<longrightarrow>
            snd (ScryptIdentity_Unwrap d i block) = (None, Some ErrIncorrectIdentity)))"
      using h by (simp add: eq)
  qed
next
  show "Type block \<noteq> ''scrypt'' \<longrightarrow>
      ScryptIdentity_Unwrap d i block = ([], (None, Some ErrIncorrectIdentity))"
    by (simp add: ScryptIdentity_Unwrap_def)
qed


theorem ScryptIdentity_Unwrap_checks_witness:
  "(\<exists>m. ScryptIdentity_Unwrap deps0 i0 \<lparr>Type = ''scrypt'', Args = [''10''], Body = []\<rparr> =
      ([], fatal m)) \<and>
   DecodeString deps0 ''0123456789abcdef'' = Inr (bytes_of ''0123456789abcdef'') \<and>
   Atoi deps0 ''23'' = Inr 23 \<and> Atoi deps0 ''0'' = Inr 0 \<and> Atoi deps0 ''10'' = Inr 10 \<and>
   maxWorkFactor i0 = 22 \<and>
   ScryptIdentity_Unwrap deps0 i0
      \<lparr>Type = ''scrypt'', Args = [''0123456789abcdef'', ''23''], Body = []\<rparr> =
     ([], fatal (''scrypt work factor too large: '' @ Itoa 23)) \<and>
   ScryptIdentity_Unwrap deps0 i0
      \<lparr>Type = ''scrypt'', Args = [''0123456789abcdef'', ''0''], Body = []\<rparr> =
     ([], fatal (''invalid scrypt work factor: '' @ Itoa 0)) \<and>
   fst (ScryptIdentity_Unwrap deps0 i0
      \<lparr>Type = ''scrypt'', Args = [''0123456789abcdef'', ''10''], Body = []\<rparr>) =
     [EvScryptKey (ScryptIdentity.password i0)
        (bytes_of scryptLabel @ bytes_of ''0123456789abcdef'') (shl1 10)] \<and>
   snd (ScryptIdentity_Unwrap deps0 i0
      \<lparr>Type = ''scrypt'', Args = [''0123456789abcdef'', ''10''], Body = []\<rparr>) =
     (None, Some ErrIncorrectIdentity) \<and>
   ScryptIdentity_Unwrap deps0 i0
      \<lparr>Type = ''X25519'', Args = [''0123456789abcdef''], Body = []\<rparr> =
     ([], (None, Some ErrIncorrectIdentity))"
proof -
  let ?salt = "''0123456789abcdef''"
  have dec: "DecodeString deps0 ?salt = Inr (bytes_of ?salt)" "length (bytes_of ?salt) = 16"
    by (simp_all add: deps0_def bytes_of_def)
  have atoi: "Atoi deps0 ''23'' = Inr 23" "Atoi deps0 ''0'' = Inr 0" "Atoi deps0 ''10'' = Inr 10"
    by (simp_all add: deps0_def parse_decimal_def digit_of_def)
  have mx: "maxWorkFactor i0 = 22" by (simp add: i0_def)
  have kdf: "\<exists>k e. scrypt_Key deps0 (ScryptIdentity.password i0)
        (bytes_of scryptLabel @ bytes_of ?salt) (shl1 10) 8 1 KeySize = Inr k \<and>
      aeadDecrypt deps0 k [] = Inl e"
    by (simp add: deps0_def shl1_def unseal_def)
  have a: "\<exists>m. ScryptIdentity_Unwrap deps0 i0 \<lparr>Type = ''scrypt'', Args = [''10''], Body = []\<rparr> =
      ([], fatal m)"
    using ScryptIdentity_Unwrap_checks
      [of "\<lparr>Type = ''scrypt'', Args = [''10''], Body = []\<rparr>" deps0 i0]
    by simp
  have b: "ScryptIdentity_Unwrap deps0 i0
      \<lparr>Type = ''scrypt'', Args = [?salt, ''23''], Body = []\<rparr> =
     ([], fatal (''scrypt work factor too large: '' @ Itoa 23))"
    using ScryptIdentity_Unwrap_checks
      [of "\<lparr>Type = ''scrypt'', Args = [?salt, ''23''], Body = []\<rparr>" deps0 i0
        ?salt "''23''" "bytes_of ?salt" 23] dec atoi mx
    by simp
  have c: "ScryptIdentity_Unwrap deps0 i0
      \<lparr>Type = ''scrypt'', Args = [?salt, ''0''], Body = []\<rparr> =
     ([], fatal (''invalid scrypt work factor: '' @ Itoa 0))"
    using ScryptIdentity_Unwrap_checks
      [of "\<lparr>Type = ''scrypt'', Args = [?salt, ''0''], Body = []\<rparr>" deps0 i0
        ?salt "''0''" "bytes_of ?salt" 0] dec atoi mx
    by simp
  have e: "fst (ScryptIdentity_Unwrap deps0 i0
      \<lparr>Type = ''scrypt'', Args = [?salt, ''10''], Body = []\<rparr>) =
     [EvScryptKey (ScryptIdentity.password i0)
        (bytes_of scryptLabel @ bytes_of ?salt) (shl1 10)] \<and>
    snd (ScryptIdentity_Unwrap deps0 i0
      \<lparr>Type = ''scrypt'', Args = [?salt, ''10''], Body = []\<rparr>) =
     (None, Some ErrIncorrectIdentity)"
    using ScryptIdentity_Unwrap_checks
      [of "\<lparr>Type = ''scrypt'', Args = [?salt, ''10''], Body = []\<rparr>" deps0 i0
        ?salt "''10''" "bytes_of ?salt" 10] dec atoi mx kdf
    by auto
  have f: "ScryptIdentity_Unwrap deps0 i0
      \<lparr>Type = ''X25519'', Args = [?salt], Body = []\<rparr> =
     ([], (None, Some ErrIncorrectIdentity))"
    using ScryptIdentity_Unwrap_checks
      [of "\<lparr>Type = ''X25519'', Args = [?salt], Body = []\<rparr>" deps0 i0]
    by simp
  show ?thesis
    using a b c e f dec atoi mx by simp
qed

section \<open>Unwrapping an X25519 stanza\<close>

lemma x25519_malformed:
  assumes t: "Type block = ''X25519''"
    and n: "\<not> (\<exists>a0 publicKey. Args block = [a0] \<and> DecodeString d a0 = Inr publicKey \<and>
          length publicKey = PointSize)"
  shows "\<exists>m. X25519Identity_Unwrap d i block = (None, Some (Err m))"
proof (cases "\<exists>a0. Args block = [a0]")
  case False
  then show ?thesis
    using t by (auto simp: X25519Identity_Unwrap_def fatal_def split: list.splits)
next
  case True
  then obtain a0 where args: "Args block = [a0]" by blast
  show ?thesis
  proof (cases "DecodeString d a0")
    case (Inl e)
    then show ?thesis using t args by (simp add: X25519Identity_Unwrap_def fatal_def)
  next
    case (Inr publicKey)
    then have "length publicKey \<noteq> PointSize" using n args by blast
    then show ?thesis using t args Inr by (simp add: X25519Identity_Unwrap_def fatal_def)
  qed
qed

lemma x25519_well_formed:
  assumes "Type block = ''X25519''" "Args block = [a0]" "DecodeString d a0 = Inr publicKey"
    "length publicKey = PointSize"
  shows "X25519Identity_Unwrap d i block =
     (case X25519 d (secretKey i) publicKey of
        Inl e \<Rightarrow> fatal (''invalid X25519 recipient: '' @ e)
      | Inr sharedSecret \<Rightarrow>
          (case hkdf_sha256 d sharedSecret (publicKey @ ourPublicKey i) (bytes_of x25519Label) 32 of
             Inl e \<Rightarrow> fatal e
           | Inr wrappingKey \<Rightarrow>
               (case aeadDecrypt d wrappingKey (Body block) of
                  Inl e \<Rightarrow> (None, Some ErrIncorrectIdentity)
                | Inr fileKey \<Rightarrow> (fileKey, None))))"
  using assms by (simp add: X25519Identity_Unwrap_def Let_def split: sum.splits)

lemma x25519_incorrect_iff:
  "(snd (X25519Identity_Unwrap d i block) = Some ErrIncorrectIdentity) =
     (Type block \<noteq> ''X25519'' \<or>
      (\<exists>a0 publicKey sharedSecret wrappingKey e.
         Args block = [a0] \<and> DecodeString d a0 = Inr publicKey \<and> length publicKey = PointSize \<and>
         X25519 d (secretKey i) publicKey = Inr sharedSecret \<and>
         hkdf_sha256 d sharedSecret (publicKey @ ourPublicKey i) (bytes_of x25519Label) 32 =
           Inr wrappingKey \<and>
         aeadDecrypt d wrappingKey (Body block) = Inl e))"
proof (cases "Type block = ''X25519''")
  case False
  then show ?thesis by (simp add: X25519Identity_Unwrap_def)
next
  case t: True
  show ?thesis
  proof (cases "\<exists>a0 publicKey. Args block = [a0] \<and> DecodeString d a0 = Inr publicKey \<and>
          length publicKey = PointSize")
    case False
    from x25519_malformed [OF t False, of i] obtain m
      where "X25519Identity_Unwrap d i block = (None, Some (Err m))" by blast
    then show ?thesis using t False by auto
  next
    case True
    then obtain a0 publicKey where w: "Args block = [a0]" "DecodeString d a0 = Inr publicKey"
      "length publicKey = PointSize" by blast
    show ?thesis
      using t w by (auto simp: x25519_well_formed [OF t w] fatal_def split: sum.splits)
  qed
qed


text \<open>
  C4. \<^verbatim>\<open>X25519Identity.Unwrap\<close> returns \<^verbatim>\<open>ErrIncorrectIdentity\<close> exactly when
  the stanza's type is not \<open>X25519\<close>, or the stanza is well formed, the key derivation
  succeeds and the decryption of the body fails. A stanza of type \<open>X25519\<close> whose
  argument count is not 1, or whose argument does not decode to exactly 32 bytes, gives
  an error that is not \<^verbatim>\<open>ErrIncorrectIdentity\<close>, and no key.
\<close>

theorem X25519Identity_Unwrap_incorrect:
  "((snd (X25519Identity_Unwrap d i block) = Some ErrIncorrectIdentity) =
     (Type block \<noteq> ''X25519'' \<or>
      (\<exists>a0 publicKey sharedSecret wrappingKey e.
         Args block = [a0] \<and> DecodeString d a0 = Inr publicKey \<and> length publicKey = PointSize \<and>
         X25519 d (secretKey i) publicKey = Inr sharedSecret \<and>
         hkdf_sha256 d sharedSecret (publicKey @ ourPublicKey i) (bytes_of x25519Label) 32 =
           Inr wrappingKey \<and>
         aeadDecrypt d wrappingKey (Body block) = Inl e))) \<and>
   (Type block = ''X25519'' \<and>
    \<not> (\<exists>a0 publicKey. Args block = [a0] \<and> DecodeString d a0 = Inr publicKey \<and>
          length publicKey = PointSize) \<longrightarrow>
      (\<exists>m. X25519Identity_Unwrap d i block = (None, Some (Err m))))"
  using x25519_incorrect_iff [of d i block] x25519_malformed [of block d i] by blast

theorem X25519Identity_Unwrap_incorrect_witness:
  "snd (X25519Identity_Unwrap deps0 x0 \<lparr>Type = ''scrypt'', Args = [], Body = []\<rparr>) =
     Some ErrIncorrectIdentity \<and>
   (\<exists>publicKey sharedSecret wrappingKey e.
      DecodeString deps0 (replicate 32 CHR ''A'') = Inr publicKey \<and>
      length publicKey = PointSize \<and>
      X25519 deps0 (secretKey x0) publicKey = Inr sharedSecret \<and>
      hkdf_sha256 deps0 sharedSecret (publicKey @ ourPublicKey x0) (bytes_of x25519Label) 32 =
        Inr wrappingKey \<and>
      aeadDecrypt deps0 wrappingKey [] = Inl e) \<and>
   snd (X25519Identity_Unwrap deps0 x0
      \<lparr>Type = ''X25519'', Args = [replicate 32 CHR ''A''], Body = []\<rparr>) =
     Some ErrIncorrectIdentity \<and>
   (\<exists>m. X25519Identity_Unwrap deps0 x0 \<lparr>Type = ''X25519'', Args = [], Body = []\<rparr> =
      (None, Some (Err m)))"
proof -
  have tag: "\<exists>publicKey sharedSecret wrappingKey e.
      DecodeString deps0 (replicate 32 CHR ''A'') = Inr publicKey \<and>
      length publicKey = PointSize \<and>
      X25519 deps0 (secretKey x0) publicKey = Inr sharedSecret \<and>
      hkdf_sha256 deps0 sharedSecret (publicKey @ ourPublicKey x0) (bytes_of x25519Label) 32 =
        Inr wrappingKey \<and>
      aeadDecrypt deps0 wrappingKey [] = Inl e"
    by (simp add: deps0_def x0_def bytes_of_def PointSize_def dh_def unseal_def)
  have a: "snd (X25519Identity_Unwrap deps0 x0 \<lparr>Type = ''scrypt'', Args = [], Body = []\<rparr>) =
     Some ErrIncorrectIdentity"
    using X25519Identity_Unwrap_incorrect
      [of deps0 x0 "\<lparr>Type = ''scrypt'', Args = [], Body = []\<rparr>"]
    by simp
  have b: "snd (X25519Identity_Unwrap deps0 x0
      \<lparr>Type = ''X25519'', Args = [replicate 32 CHR ''A''], Body = []\<rparr>) =
     Some ErrIncorrectIdentity"
    using X25519Identity_Unwrap_incorrect
      [of deps0 x0 "\<lparr>Type = ''X25519'', Args = [replicate 32 CHR ''A''], Body = []\<rparr>"] tag
    by simp
  have c: "\<exists>m. X25519Identity_Unwrap deps0 x0 \<lparr>Type = ''X25519'', Args = [], Body = []\<rparr> =
      (None, Some (Err m))"
    using X25519Identity_Unwrap_incorrect
      [of deps0 x0 "\<lparr>Type = ''X25519'', Args = [], Body = []\<rparr>"]
    by simp
  show ?thesis
    using a b c tag by blast
qed

section \<open>Wrapping and unwrapping with X25519\<close>

lemma byte_char: "of_char (char_of (unat (b :: 8 word))) = b"
proof -
  have lt: "unat b < 256" using unsigned_less [of b, where 'a = nat] by simp
  have "(of_char (char_of (unat b)) :: 8 word) = of_nat (of_char (char_of (unat b)))"
    by (simp only: of_nat_of_char)
  also have "\<dots> = of_nat (unat b mod 256)" by (simp only: of_char_of)
  also have "\<dots> = of_nat (unat b)" using lt by simp
  also have "\<dots> = b" by simp
  finally show ?thesis .
qed

lemma decode_encode: "map (of_char \<circ> (\<lambda>b. char_of (unat b))) (x :: bytes) = x"
  by (induction x) (simp_all add: byte_char)

lemma replicate_32: "replicate 32 x = x # replicate 31 x"
proof -
  have "(32::nat) = Suc 31" by simp
  then show ?thesis by (simp only: replicate_Suc)
qed

lemma add_bytes_lcomm: "add_bytes a (add_bytes b c) = add_bytes b (add_bytes a c)"
  unfolding add_bytes_def
proof (induction a arbitrary: b c)
  case Nil
  then show ?case by (cases b; cases c) simp_all
next
  case (Cons x a)
  then show ?case by (cases b; cases c) (simp_all add: add.left_commute)
qed


lemma Wrap_Inr:
  assumes "X25519Recipient_Wrap d rand_Read r fileKey g = (Inr l, g')"
  shows "\<exists>rnd ourPub shared wk body.
     rand_Read g ScalarSize = (Inr rnd, g') \<and>
     X25519 d (fill ScalarSize rnd) Basepoint = Inr ourPub \<and>
     X25519 d (fill ScalarSize rnd) (theirPublicKey r) = Inr shared \<and>
     hkdf_sha256 d shared (ourPub @ theirPublicKey r) (bytes_of x25519Label) 32 = Inr wk \<and>
     aeadEncrypt d wk fileKey = Inr body \<and>
     l = \<lparr>Type = ''X25519'', Args = [EncodeToString d ourPub], Body = body\<rparr>"
  using assms
  by (auto simp: X25519Recipient_Wrap_def Let_def split: prod.splits sum.splits)

lemma deps0_enc: "\<forall>x. length x = PointSize \<longrightarrow> DecodeString deps0 (EncodeToString deps0 x) = Inr x"
  by (simp add: deps0_def PointSize_def bytes_of_def decode_encode)

lemma deps0_len: "\<forall>a p q. X25519 deps0 a p = Inr q \<longrightarrow> length q = PointSize"
  by (auto simp: deps0_def dh_def add_bytes_def PointSize_def split: if_splits)

lemma deps0_agree:
  "\<forall>a b pa pb s. X25519 deps0 a Basepoint = Inr pa \<and> X25519 deps0 b Basepoint = Inr pb \<and>
     X25519 deps0 a pb = Inr s \<longrightarrow> X25519 deps0 b pa = Inr s"
proof (intro allI impI)
  fix a b pa pb s
  assume h: "X25519 deps0 a Basepoint = Inr pa \<and> X25519 deps0 b Basepoint = Inr pb \<and>
     X25519 deps0 a pb = Inr s"
  then have la: "length a = 32" and lb: "length b = 32"
    and pa: "pa = add_bytes a Basepoint" and pb: "pb = add_bytes b Basepoint"
    and s: "s = add_bytes a pb"
    by (auto simp: deps0_def dh_def split: if_splits)
  have "length pa = 32" using la pa by (simp add: add_bytes_def Basepoint_def)
  then show "X25519 deps0 b pa = Inr s"
    using lb by (simp add: deps0_def dh_def s pa pb add_bytes_lcomm [of a b])
qed

lemma deps0_aead:
  "\<forall>k m c. length m = 16 \<and> aeadEncrypt deps0 k m = Inr c \<longrightarrow> aeadDecrypt deps0 k c = Inr (Some m)"
  by (auto simp: deps0_def seal_def unseal_def split: if_splits)

text \<open>
  C5. When \<^verbatim>\<open>X25519Recipient.Wrap\<close> succeeds for the recipient of an identity, the
  stanza has type \<open>X25519\<close> and one argument, the encoding of the ephemeral public key;
  its body is the file key encrypted under the key that HKDF derives from the shared
  secret, with the ephemeral public key followed by the recipient's as salt and the
  X25519 label as info. \<^verbatim>\<open>Unwrap\<close> by that identity decodes the same public key and
  computes the same shared secret and salt, and returns the file key. The collaborators
  are assumed to do their job: decoding inverts encoding on 32 bytes, X25519 returns 32
  bytes and the two parties agree on the shared secret, and decryption inverts
  encryption of 16 bytes.
\<close>

theorem X25519_Wrap_Unwrap:
  assumes enc: "\<forall>x. length x = PointSize \<longrightarrow> DecodeString d (EncodeToString d x) = Inr x"
    and len: "\<forall>a p q. X25519 d a p = Inr q \<longrightarrow> length q = PointSize"
    and agree: "\<forall>a b pa pb s. X25519 d a Basepoint = Inr pa \<and> X25519 d b Basepoint = Inr pb \<and>
        X25519 d a pb = Inr s \<longrightarrow> X25519 d b pa = Inr s"
    and aead: "\<forall>k m c. length m = 16 \<and> aeadEncrypt d k m = Inr c \<longrightarrow>
        aeadDecrypt d k c = Inr (Some m)"
    and fk: "length fileKey = 16"
    and new: "NewX25519Identity d sk = Inr i"
    and pub: "X25519 d sk Basepoint = Inr pk"
    and wrap: "X25519Recipient_Wrap d rand_Read (Recipient i) fileKey g = (Inr l, g')"
  shows "Type l = ''X25519'' \<and>
    (\<exists>ephemeral ourPub shared wk.
       X25519 d ephemeral Basepoint = Inr ourPub \<and>
       Args l = [EncodeToString d ourPub] \<and>
       X25519 d ephemeral pk = Inr shared \<and>
       hkdf_sha256 d shared (ourPub @ pk) (bytes_of x25519Label) 32 = Inr wk \<and>
       aeadEncrypt d wk fileKey = Inr (Body l) \<and>
       DecodeString d (hd (Args l)) = Inr ourPub \<and>
       X25519 d (secretKey i) ourPub = Inr shared \<and>
       ourPublicKey i = pk) \<and>
    X25519Identity_Unwrap d i l = (Some fileKey, None)"
proof -
  have i: "i = \<lparr>secretKey = sk, ourPublicKey = pk\<rparr>"
    using new pub by (simp add: NewX25519Identity_def split: if_splits)
  then have their: "theirPublicKey (Recipient i) = pk" and sec: "secretKey i = sk"
    and our: "ourPublicKey i = pk"
    by (simp_all add: Recipient_def)
  from Wrap_Inr [OF wrap] obtain rnd ourPub shared wk body where
    w: "X25519 d (fill ScalarSize rnd) Basepoint = Inr ourPub"
      "X25519 d (fill ScalarSize rnd) pk = Inr shared"
      "hkdf_sha256 d shared (ourPub @ pk) (bytes_of x25519Label) 32 = Inr wk"
      "aeadEncrypt d wk fileKey = Inr body"
      "l = \<lparr>Type = ''X25519'', Args = [EncodeToString d ourPub], Body = body\<rparr>"
    unfolding their by blast
  have lp: "length ourPub = PointSize" using len w(1) by blast
  then have dec: "DecodeString d (EncodeToString d ourPub) = Inr ourPub" using enc by blast
  have sh: "X25519 d sk ourPub = Inr shared" using agree w(1) pub w(2) by blast
  have op: "aeadDecrypt d wk body = Inr (Some fileKey)" using aead fk w(4) by blast
  have t: "Type l = ''X25519''" and a: "Args l = [EncodeToString d ourPub]" and b: "Body l = body"
    using w(5) by simp_all
  have un: "X25519Identity_Unwrap d i l = (Some fileKey, None)"
    by (simp add: x25519_well_formed [OF t a dec lp] sec our sh w(3) b op)
  show ?thesis
    using t a b w dec sh our un sec by auto
qed


theorem X25519_Wrap_Unwrap_witness:
  "length (replicate 16 7 :: bytes) = 16 \<and>
   NewX25519Identity deps0 (replicate 32 3) = Inr x0 \<and>
   X25519 deps0 (replicate 32 3) Basepoint = Inr (12 # replicate 31 3) \<and>
   (\<exists>l. X25519Recipient_Wrap deps0 rand0 (Recipient x0) (replicate 16 7) 5 = (Inr l, 4) \<and>
        Type l = ''X25519'' \<and>
        X25519Identity_Unwrap deps0 x0 l = (Some (replicate 16 7), None))"
proof -
  have fk: "length (replicate 16 7 :: bytes) = 16" by simp
  have pub: "X25519 deps0 (replicate 32 3) Basepoint = Inr (12 # replicate 31 3)"
    by (simp add: deps0_def dh_def add_bytes_def Basepoint_def replicate_32)
  have new: "NewX25519Identity deps0 (replicate 32 3) = Inr x0"
    by (simp add: NewX25519Identity_def ScalarSize_def pub x0_def)
  have "\<exists>l. X25519Recipient_Wrap deps0 rand0 (Recipient x0) (replicate 16 7) 5 = (Inr l, 4)"
    by (simp add: X25519Recipient_Wrap_def rand0_def ScalarSize_def fill_def Recipient_def x0_def
        deps0_def dh_def add_bytes_def Basepoint_def seal_def replicate_32)
  then obtain l where
    wrap: "X25519Recipient_Wrap deps0 rand0 (Recipient x0) (replicate 16 7) 5 = (Inr l, 4)"
    by blast
  from X25519_Wrap_Unwrap [OF deps0_enc deps0_len deps0_agree deps0_aead fk new pub wrap]
  have "Type l = ''X25519'' \<and> X25519Identity_Unwrap deps0 x0 l = (Some (replicate 16 7), None)"
    by blast
  then show ?thesis
    using fk new pub wrap by blast
qed

section \<open>The scan of Decrypt\<close>

lemma emit_Nil [simp]: "emit [] p = p"
  by (cases p) simp

lemma emit_emit [simp]: "emit es (emit fs p) = emit (es @ fs) p"
  by (cases p) simp

lemma fst_emit [simp]: "fst (emit es p) = es @ fst p"
  by (cases p) simp

lemma snd_emit [simp]: "snd (emit es p) = snd p"
  by (cases p) simp

lemma apsnd_emit [simp]: "apsnd f (emit es p) = emit es (apsnd f p)"
  by (cases p) simp

lemma first_outcome_append:
  "first_outcome (xs @ ys) =
     (case first_outcome xs of
        (ev, Incorrect) \<Rightarrow> emit ev (first_outcome ys)
      | (ev, out) \<Rightarrow> (ev, out))"
proof (induction xs)
  case Nil
  then show ?case by simp
next
  case (Cons c xs)
  obtain r j i where c: "c = (r, j, i)" by (cases c) auto
  obtain ev out where p: "probe j i r = (ev, out)" by (cases "probe j i r") auto
  obtain ev' out' where f: "first_outcome xs = (ev', out')" by (cases "first_outcome xs") auto
  show ?case
    using Cons.IH by (cases out; cases out') (simp_all add: c p f)
qed

lemma call_Unwrap_outcome:
  "apsnd scan_outcome (call_Unwrap r j i rest) =
     (case unwrap_outcome j i r of
        (ev, Incorrect) \<Rightarrow> emit ev (apsnd scan_outcome (rest (fst (snd (IUnwrap i r)))))
      | (ev, out) \<Rightarrow> (ev, out))"
  by (cases "IUnwrap i r") (auto simp: unwrap_outcome_def split: option.splits)

lemma try_identities_scan:
  "apsnd scan_outcome (try_identities r j ids fk) =
     first_outcome (map (\<lambda>(j, i). (r, j, i))
       (filter (\<lambda>(j, i). IType i = Type r) (enumerate j ids)))"
proof (induction ids arbitrary: j fk)
  case Nil
  then show ?case by simp
next
  case (Cons i ids)
  show ?case
  proof (cases "IType i = Type r")
    case False
    then show ?thesis using Cons.IH [of "Suc j" fk] by simp
  next
    case True
    obtain ev out where u: "unwrap_outcome j i r = (ev, out)"
      by (cases "unwrap_outcome j i r") auto
    note ih = Cons.IH [of "Suc j"]
    have cu: "apsnd scan_outcome (call_Unwrap r j i (try_identities r (Suc j) ids)) =
       (case (ev, out) of
          (ev, Incorrect) \<Rightarrow> emit ev (first_outcome (map (\<lambda>(j, i). (r, j, i))
            (filter (\<lambda>(j, i). IType i = Type r) (enumerate (Suc j) ids))))
        | (ev, out) \<Rightarrow> (ev, out))"
      by (simp only: call_Unwrap_outcome u ih)
    show ?thesis
    proof (cases "IMatch i")
      case None
      then show ?thesis
        using True cu by (simp add: probe_def u del: call_Unwrap.simps)
    next
      case (Some m)
      show ?thesis
      proof (cases "m r")
        case None
        then show ?thesis
          using True Some cu
          by (cases out) (simp_all add: probe_def u del: call_Unwrap.simps)
      next
        case (Some err)
        then show ?thesis
          using True \<open>IMatch i = Some m\<close> ih [of fk]
          by (simp add: probe_def del: call_Unwrap.simps)
      qed
    qed
  qed
qed

lemma candidates_Cons: "candidates (r # rs) ids = candidates_of r ids @ candidates rs ids"
  by (simp add: candidates_def)

lemma RecipientsLoop_scan:
  assumes "first_outcome (candidates (takeWhile (lone_scrypt n) rs) ids) = (tr, out)"
  shows "fst (RecipientsLoop n rs ids fk) = tr \<and>
    (case out of
       Found k \<Rightarrow> snd (RecipientsLoop n rs ids fk) = Inr k
     | Fatal err \<Rightarrow> snd (RecipientsLoop n rs ids fk) = Inl err
     | Incorrect \<Rightarrow>
         if list_all (lone_scrypt n) rs then \<exists>fk'. snd (RecipientsLoop n rs ids fk) = Inr fk'
         else snd (RecipientsLoop n rs ids fk) =
                Inl (Err ''an scrypt recipient must be the only one''))"
  using assms
proof (induction rs arbitrary: fk tr out)
  case Nil
  then show ?case by (auto simp: candidates_def)
next
  case (Cons r rs)
  show ?case
  proof (cases "lone_scrypt n r")
    case False
    then have "tr = [] \<and> out = Incorrect" using Cons.prems by (simp add: candidates_def)
    then show ?thesis using False by (simp add: lone_scrypt_def)
  next
    case True
    then have guard: "\<not> (Type r = ''scrypt'' \<and> n \<noteq> 1)" by (simp add: lone_scrypt_def)
    obtain ev sc where t: "try_identities r 0 ids fk = (ev, sc)"
      by (cases "try_identities r 0 ids fk") auto
    have c: "first_outcome (candidates_of r ids) = (ev, scan_outcome sc)"
      using try_identities_scan [of r 0 ids fk] by (simp add: t candidates_of_def)
    have whole: "(tr, out) =
      (case (ev, scan_outcome sc) of
         (ev, Incorrect) \<Rightarrow> emit ev (first_outcome (candidates (takeWhile (lone_scrypt n) rs) ids))
       | (ev, out) \<Rightarrow> (ev, out))"
      using Cons.prems True by (simp add: candidates_Cons first_outcome_append c)
    show ?thesis
    proof (cases sc)
      case (Abort err)
      then show ?thesis using whole guard t by auto
    next
      case (Break k)
      then show ?thesis using whole guard t by auto
    next
      case (Continue fk')
      obtain tr' out' where
        r: "first_outcome (candidates (takeWhile (lone_scrypt n) rs) ids) = (tr', out')"
        by (cases "first_outcome (candidates (takeWhile (lone_scrypt n) rs) ids)") auto
      have eq: "tr = ev @ tr'" "out = out'" using whole Continue by (simp_all add: r)
      have loop: "RecipientsLoop n (r # rs) ids fk = emit ev (RecipientsLoop n rs ids fk')"
        using guard t Continue by auto
      show ?thesis
        using Cons.IH [OF r, of fk'] True
        by (cases out') (simp_all add: loop eq del: RecipientsLoop.simps)
    qed
  qed
qed

lemma Decrypt_loop:
  assumes "identities \<noteq> []" "Parse io src = Inr (hdr, payload)" "length (Recipients hdr) \<le> 20"
  shows "Decrypt d io src identities =
     (case RecipientsLoop (length (Recipients hdr)) (Recipients hdr) identities None of
        (ev, Inl err) \<Rightarrow> (EvParse # ev, Inl err)
      | (ev, Inr None) \<Rightarrow> (EvParse # ev, Inl (Err ''no identity matched a recipient''))
      | (ev, Inr (Some fileKey)) \<Rightarrow>
          emit (EvParse # ev) (Decrypt_payload d io hdr payload fileKey))"
  using assms by (simp add: Decrypt_def)

lemma Decrypt_of_loop:
  assumes "identities \<noteq> []" "Parse io src = Inr (hdr, payload)" "length (Recipients hdr) \<le> 20"
    and "fst (RecipientsLoop (length (Recipients hdr)) (Recipients hdr) identities None) = ev"
    and "snd (RecipientsLoop (length (Recipients hdr)) (Recipients hdr) identities None) = res"
  shows "Decrypt d io src identities =
     (case res of
        Inl err \<Rightarrow> (EvParse # ev, Inl err)
      | Inr None \<Rightarrow> (EvParse # ev, Inl (Err ''no identity matched a recipient''))
      | Inr (Some fileKey) \<Rightarrow> emit (EvParse # ev) (Decrypt_payload d io hdr payload fileKey))"
proof -
  have "RecipientsLoop (length (Recipients hdr)) (Recipients hdr) identities None = (ev, res)"
    using assms(4,5) by (simp add: prod_eq_iff)
  then show ?thesis
    by (simp add: Decrypt_loop [OF assms(1-3)] split: sum.splits option.splits)
qed

subsection \<open>The sample values, evaluated\<close>

lemma l0_fresh: "X25519Recipient_Wrap deps0 rand0 (Recipient x0) fk0 5 = (Inr l0, 4)"
  by code_simp

lemma unwrap_l0: "X25519Identity_Unwrap deps0 x0 l0 = (Some fk0, None)"
  by code_simp

lemma unwrap_l1: "X25519Identity_Unwrap deps0 x0 l1 = (None, Some ErrIncorrectIdentity)"
  by code_simp

lemma sample_types:
  "Type l0 = ''X25519''" "Type l1 = ''X25519''" "Type s0 = ''scrypt''"
  "length (Body l0) = 32" "length (Body l1) = 32"
  by (simp_all add: l0_def l1_def s0_def)

lemma sample_ids:
  "IType id_x0 = ''X25519''" "IMatch id_x0 = None"
  "IUnwrap id_x0 r = ([], X25519Identity_Unwrap deps0 x0 r)"
  "IType id_s0 = ''scrypt''" "IMatch id_s0 = None"
  "IType id_m0 = ''X25519''"
  "IMatch id_m0 = Some (\<lambda>r. if length (Body r) = 32 then None else Some ErrIncorrectIdentity)"
  "IUnwrap id_m0 r = ([], (None, Some ErrIncorrectIdentity))"
  by (simp_all add: id_x0_def id_s0_def id_m0_def X25519Identity_identity_def
      ScryptIdentity_identity_def)

lemmas sample_eval = sample_ids sample_types unwrap_l0 unwrap_l1

lemma scan_hdr0:
  "first_outcome (candidates (takeWhile (lone_scrypt (length (Recipients hdr0))) (Recipients hdr0))
     ids0) = (tr0, Found (Some fk0))"
  by (simp add: hdr0_def ids0_def tr0_def lone_scrypt_def candidates_def candidates_of_def
      probe_def unwrap_outcome_def sample_eval)

lemma loop_hdr0:
  "RecipientsLoop (length (Recipients hdr0)) (Recipients hdr0) ids0 None = (tr0, Inr (Some fk0))"
  by (simp add: hdr0_def ids0_def tr0_def sample_eval)

lemma mac_hdr0: "headerMAC deps0 fk0 hdr0 = Inr (MAC hdr0)"
  by code_simp

lemma payload_hdr0:
  "Decrypt_payload deps0 reader0 hdr0 pl0 fk0 =
     ([EvHeaderMAC fk0, EvReadNonce, EvNewReader fk0 (replicate 16 9)],
      Inr (replicate 16 9 @ replicate 16 7, [1, 2, 3]))"
proof -
  have rd: "ReadFull reader0 pl0 16 = (Inr (replicate 16 9), [1, 2, 3])"
    by (simp add: reader0_def pl0_def)
  have sk: "streamKey deps0 fk0 (replicate 16 9) = replicate 16 9 @ replicate 16 7"
    by (simp add: deps0_def fill_def fk0_def)
  have nr: "\<And>k p. NewReader reader0 k p = Inr (k, p)"
    by (simp add: reader0_def)
  show ?thesis
    by (simp add: Decrypt_payload_def mac_hdr0 rd sk nr)
qed

lemma parse0: "Parse reader0 (Inr (h, p)) = Inr (h, p)"
  by (simp add: reader0_def)

subsection \<open>Order of the scan\<close>

text \<open>
  C2. For a parsed header of at most 20 stanzas and a non-empty identity list,
  \<^verbatim>\<open>Decrypt\<close> makes exactly the calls of the scan that the specification describes,
  over the stanzas that precede the first scrypt stanza that is not alone: stanzas in
  header order, for each the identities of its type in the caller's order,
  \<^verbatim>\<open>Match\<close> before \<^verbatim>\<open>Unwrap\<close>, an incorrect identity moving on to the next. A fatal
  outcome is returned as it is. The first successful \<^verbatim>\<open>Unwrap\<close> ends the scan and its
  key goes to the header MAC (a nil key it returned counts as no match). When no candidate
  unwraps, the result is the scrypt policy error if such a stanza stopped the scan, and
  otherwise what the last value of \<^verbatim>\<open>fileKey\<close> decides.
\<close>

theorem Decrypt_scan:
  assumes ids: "identities \<noteq> []"
    and parse: "Parse io src = Inr (hdr, payload)"
    and limit: "length (Recipients hdr) \<le> 20"
    and scan: "first_outcome (candidates
        (takeWhile (lone_scrypt (length (Recipients hdr))) (Recipients hdr)) identities) = (tr, out)"
  shows "case out of
      Fatal err \<Rightarrow> Decrypt d io src identities = (EvParse # tr, Inl err)
    | Found None \<Rightarrow>
        Decrypt d io src identities =
          (EvParse # tr, Inl (Err ''no identity matched a recipient''))
    | Found (Some k) \<Rightarrow>
        Decrypt d io src identities = emit (EvParse # tr) (Decrypt_payload d io hdr payload k)
    | Incorrect \<Rightarrow>
        if list_all (lone_scrypt (length (Recipients hdr))) (Recipients hdr)
        then \<exists>fk. Decrypt d io src identities =
               (case fk of
                  None \<Rightarrow> (EvParse # tr, Inl (Err ''no identity matched a recipient''))
                | Some k \<Rightarrow> emit (EvParse # tr) (Decrypt_payload d io hdr payload k))
        else Decrypt d io src identities =
               (EvParse # tr, Inl (Err ''an scrypt recipient must be the only one''))"
proof -
  let ?L = "RecipientsLoop (length (Recipients hdr)) (Recipients hdr) identities None"
  note l = RecipientsLoop_scan [OF scan, of None]
  from l have tr: "fst ?L = tr" by blast
  note dec = Decrypt_of_loop [OF ids parse limit tr]
  show ?thesis
  proof (cases out)
    case (Fatal err)
    then have "snd ?L = Inl err" using l by simp
    from dec [OF this] show ?thesis using Fatal by simp
  next
    case (Found k)
    then have "snd ?L = Inr k" using l by simp
    from dec [OF this] show ?thesis using Found by (cases k) simp_all
  next
    case Incorrect
    show ?thesis
    proof (cases "list_all (lone_scrypt (length (Recipients hdr))) (Recipients hdr)")
      case True
      then obtain fk where "snd ?L = Inr fk" using l Incorrect by auto
      from dec [OF this] show ?thesis using Incorrect True by auto
    next
      case False
      then have "snd ?L = Inl (Err ''an scrypt recipient must be the only one'')"
        using l Incorrect by simp
      from dec [OF this] show ?thesis using Incorrect False by simp
    qed
  qed
qed

theorem Decrypt_scan_witness:
  "ids0 \<noteq> [] \<and> Parse reader0 (Inr (hdr0, pl0)) = Inr (hdr0, pl0) \<and>
   length (Recipients hdr0) \<le> 20 \<and>
   first_outcome (candidates (takeWhile (lone_scrypt (length (Recipients hdr0))) (Recipients hdr0))
     ids0) = (tr0, Found (Some fk0)) \<and>
   Decrypt deps0 reader0 (Inr (hdr0, pl0)) ids0 =
     (EvParse # tr0 @ [EvHeaderMAC fk0, EvReadNonce, EvNewReader fk0 (replicate 16 9)],
      Inr (replicate 16 9 @ replicate 16 7, [1, 2, 3]))"
proof -
  have a: "ids0 \<noteq> []" by (simp add: ids0_def)
  have b: "Parse reader0 (Inr (hdr0, pl0)) = Inr (hdr0, pl0)" by (simp add: reader0_def)
  have c: "length (Recipients hdr0) \<le> 20" by (simp add: hdr0_def)
  from Decrypt_scan [OF a b c scan_hdr0, of deps0]
  have "Decrypt deps0 reader0 (Inr (hdr0, pl0)) ids0 =
      emit (EvParse # tr0) (Decrypt_payload deps0 reader0 hdr0 pl0 fk0)"
    by simp
  then show ?thesis
    using a b c scan_hdr0 by (simp add: payload_hdr0)
qed

section \<open>A scrypt stanza that is not alone\<close>

lemma takeWhile_lone:
  assumes "n \<noteq> 1"
  shows "takeWhile (lone_scrypt n) rs = takeWhile (\<lambda>r. Type r \<noteq> ''scrypt'') rs"
  using assms by (intro takeWhile_cong) (simp_all add: lone_scrypt_def)

text \<open>
  What the check at the head of the loop body does ensure: in a header of at most 20
  stanzas that holds a scrypt stanza and is not of length 1, when every identity tried on
  the stanzas that precede the first scrypt stanza is incorrect for them (as when the
  scrypt stanza comes first), \<^verbatim>\<open>Decrypt\<close> returns "an scrypt recipient must be the
  only one" right after those calls, with no header MAC computed.
\<close>

lemma Decrypt_scrypt_reached:
  assumes ids: "identities \<noteq> []"
    and parse: "Parse io src = Inr (hdr, payload)"
    and limit: "length (Recipients hdr) \<le> 20"
    and mem: "r \<in> set (Recipients hdr)"
    and scrypt: "Type r = ''scrypt''"
    and more: "length (Recipients hdr) \<noteq> 1"
    and scan: "first_outcome (candidates
        (takeWhile (\<lambda>r. Type r \<noteq> ''scrypt'') (Recipients hdr)) identities) = (tr, Incorrect)"
  shows "Decrypt d io src identities =
     (EvParse # tr, Inl (Err ''an scrypt recipient must be the only one''))"
proof -
  let ?n = "length (Recipients hdr)"
  have not_all: "\<not> list_all (lone_scrypt ?n) (Recipients hdr)"
    using mem scrypt more by (auto simp: list_all_iff lone_scrypt_def)
  have scan': "first_outcome (candidates (takeWhile (lone_scrypt ?n) (Recipients hdr)) identities)
      = (tr, Incorrect)"
    using scan by (simp add: takeWhile_lone [OF more])
  from RecipientsLoop_scan [OF scan', of None] not_all
  have "RecipientsLoop ?n (Recipients hdr) identities None =
      (tr, Inl (Err ''an scrypt recipient must be the only one''))"
    by (simp add: prod_eq_iff)
  then show ?thesis
    by (simp add: Decrypt_loop [OF ids parse limit])
qed

text \<open>
  C1. A header that holds a scrypt stanza and another stanza is to be refused with "an
  scrypt recipient must be the only one" whatever the order of its stanzas and whichever
  identity matches. \<^verbatim>\<open>Decrypt\<close> does not do so: the check is made at the head of the
  loop body, for the stanza about to be tried, and \<^verbatim>\<open>break RecipientsLoop\<close> leaves
  the loop at the first stanza an identity unwraps. The header \<open>hdr2\<close> holds the stanza
  \<open>l0\<close> that \<^verbatim>\<open>Wrap\<close> makes for \<open>x0\<close> and then the scrypt stanza \<open>s0\<close>, and its MAC
  is the one of the file key: with the identity \<open>x0\<close>, \<^verbatim>\<open>Decrypt\<close> unwraps \<open>l0\<close>,
  never looks at \<open>s0\<close>, verifies the MAC, reads the nonce and returns the reader. The
  same two stanzas in the other order are refused with the policy error.
\<close>

theorem Decrypt_scrypt_check_skipped:
  "Recipients hdr2 = [l0, s0] \<and> Type l0 = ''X25519'' \<and> Type s0 = ''scrypt'' \<and>
   Decrypt deps0 reader0 (Inr (hdr2, pl0)) [id_x0] =
     ([EvParse, EvUnwrap 0 l0, EvHeaderMAC fk0, EvReadNonce, EvNewReader fk0 (replicate 16 9)],
      Inr (replicate 16 9 @ replicate 16 7, [1, 2, 3])) \<and>
   Decrypt deps0 reader0 (Inr (hdr2\<lparr>Recipients := [s0, l0]\<rparr>, pl0)) [id_x0] =
     ([EvParse], Inl (Err ''an scrypt recipient must be the only one''))"
proof -
  have mac: "headerMAC deps0 fk0 hdr2 = Inr (MAC hdr2)"
    by code_simp
  have rd: "ReadFull reader0 pl0 16 = (Inr (replicate 16 9), [1, 2, 3])"
    by (simp add: reader0_def pl0_def)
  have sk: "streamKey deps0 fk0 (replicate 16 9) = replicate 16 9 @ replicate 16 7"
    by (simp add: deps0_def fill_def fk0_def)
  have nr: "\<And>k p. NewReader reader0 k p = Inr (k, p)"
    by (simp add: reader0_def)
  have pay: "Decrypt_payload deps0 reader0 hdr2 pl0 fk0 =
     ([EvHeaderMAC fk0, EvReadNonce, EvNewReader fk0 (replicate 16 9)],
      Inr (replicate 16 9 @ replicate 16 7, [1, 2, 3]))"
    by (simp add: Decrypt_payload_def mac rd sk nr)
  have loop: "RecipientsLoop (length (Recipients hdr2)) (Recipients hdr2) [id_x0] None =
      ([EvUnwrap 0 l0], Inr (Some fk0))"
    by (simp add: hdr2_def sample_eval)
  have len: "length (Recipients hdr2) \<le> 20" by (simp add: hdr2_def)
  have skipped: "Decrypt deps0 reader0 (Inr (hdr2, pl0)) [id_x0] =
     ([EvParse, EvUnwrap 0 l0, EvHeaderMAC fk0, EvReadNonce, EvNewReader fk0 (replicate 16 9)],
      Inr (replicate 16 9 @ replicate 16 7, [1, 2, 3]))"
    by (simp add: Decrypt_loop [OF _ parse0 len] loop pay)
  have refused: "Decrypt deps0 reader0 (Inr (hdr2\<lparr>Recipients := [s0, l0]\<rparr>, pl0)) [id_x0] =
     ([EvParse], Inl (Err ''an scrypt recipient must be the only one''))"
    by (simp add: Decrypt_def parse0 sample_types)
  show ?thesis
    using skipped refused by (simp add: hdr2_def sample_types)
qed

section \<open>The header MAC\<close>

lemma Decrypt_payload_trace:
  "\<exists>pev. fst (Decrypt_payload d io hdr payload fileKey) = EvHeaderMAC fileKey # pev \<and>
     (pev = [] \<or> (\<exists>rest. pev = EvReadNonce # rest \<and> EvReadNonce \<notin> set rest)) \<and>
     (EvReadNonce \<in> set pev) = (headerMAC d fileKey hdr = Inr (MAC hdr))"
  by (auto simp: Decrypt_payload_def split: sum.splits prod.splits)

text \<open>
  C6. When the loop over the stanzas leaves a file key, the next call of \<^verbatim>\<open>Decrypt\<close>
  is \<^verbatim>\<open>headerMAC\<close> under that key. If the MAC it returns differs from the one stored
  in the header, \<^verbatim>\<open>Decrypt\<close> makes no further call and fails with "bad header MAC".
  The nonce is read at most once, directly after the MAC, and exactly when the MAC was
  computed and equals the stored one.
\<close>

theorem Decrypt_header_MAC:
  assumes ids: "identities \<noteq> []"
    and parse: "Parse io src = Inr (hdr, payload)"
    and limit: "length (Recipients hdr) \<le> 20"
    and loop: "RecipientsLoop (length (Recipients hdr)) (Recipients hdr) identities None =
        (ev, Inr (Some fileKey))"
  shows "\<exists>pev. fst (Decrypt d io src identities) = EvParse # ev @ EvHeaderMAC fileKey # pev \<and>
      (pev = [] \<or> (\<exists>rest. pev = EvReadNonce # rest \<and> EvReadNonce \<notin> set rest)) \<and>
      (EvReadNonce \<in> set pev) = (headerMAC d fileKey hdr = Inr (MAC hdr)) \<and>
      (\<forall>mac. headerMAC d fileKey hdr = Inr mac \<and> mac \<noteq> MAC hdr \<longrightarrow>
         pev = [] \<and> snd (Decrypt d io src identities) = Inl (Err ''bad header MAC''))"
proof -
  have dec: "Decrypt d io src identities =
      emit (EvParse # ev) (Decrypt_payload d io hdr payload fileKey)"
    by (simp add: Decrypt_loop [OF ids parse limit] loop)
  obtain pev where p: "fst (Decrypt_payload d io hdr payload fileKey) = EvHeaderMAC fileKey # pev"
    "pev = [] \<or> (\<exists>rest. pev = EvReadNonce # rest \<and> EvReadNonce \<notin> set rest)"
    "(EvReadNonce \<in> set pev) = (headerMAC d fileKey hdr = Inr (MAC hdr))"
    using Decrypt_payload_trace [of d io hdr payload fileKey] by blast
  have bad: "\<forall>mac. headerMAC d fileKey hdr = Inr mac \<and> mac \<noteq> MAC hdr \<longrightarrow>
      pev = [] \<and> snd (Decrypt d io src identities) = Inl (Err ''bad header MAC'')"
    using p(1) by (auto simp: dec Decrypt_payload_def)
  show ?thesis
    using p bad by (auto simp: dec)
qed

theorem Decrypt_header_MAC_witness:
  "ids0 \<noteq> [] \<and> Parse reader0 (Inr (hdr0, pl0)) = Inr (hdr0, pl0) \<and>
   length (Recipients hdr0) \<le> 20 \<and>
   RecipientsLoop (length (Recipients hdr0)) (Recipients hdr0) ids0 None =
     (tr0, Inr (Some fk0)) \<and>
   headerMAC deps0 fk0 hdr0 = Inr (MAC hdr0) \<and>
   (\<exists>pev. fst (Decrypt deps0 reader0 (Inr (hdr0, pl0)) ids0) =
      EvParse # tr0 @ EvHeaderMAC fk0 # pev \<and> EvReadNonce \<in> set pev) \<and>
   RecipientsLoop (length (Recipients (hdr0\<lparr>MAC := []\<rparr>))) (Recipients (hdr0\<lparr>MAC := []\<rparr>))
     ids0 None = (tr0, Inr (Some fk0)) \<and>
   headerMAC deps0 fk0 (hdr0\<lparr>MAC := []\<rparr>) = Inr (replicate 16 7 @ replicate 16 0) \<and>
   replicate 16 7 @ replicate 16 0 \<noteq> MAC (hdr0\<lparr>MAC := []\<rparr>) \<and>
   snd (Decrypt deps0 reader0 (Inr (hdr0\<lparr>MAC := []\<rparr>, pl0)) ids0) = Inl (Err ''bad header MAC'')"
proof -
  let ?bad = "hdr0\<lparr>MAC := []\<rparr>"
  have a: "ids0 \<noteq> []" by (simp add: ids0_def)
  have c: "length (Recipients hdr0) \<le> 20" "length (Recipients ?bad) \<le> 20"
    by (simp_all add: hdr0_def)
  have l: "RecipientsLoop (length (Recipients ?bad)) (Recipients ?bad) ids0 None =
      (tr0, Inr (Some fk0))"
    using loop_hdr0 by simp
  have m: "headerMAC deps0 fk0 ?bad = Inr (replicate 16 7 @ replicate 16 0)"
    using mac_hdr0 by (simp add: deps0_def hdr0_def)
  have n: "replicate 16 7 @ replicate 16 0 \<noteq> MAC ?bad" by simp
  from Decrypt_header_MAC [OF a parse0 c(1) loop_hdr0, of deps0 pl0] mac_hdr0
  have good: "\<exists>pev. fst (Decrypt deps0 reader0 (Inr (hdr0, pl0)) ids0) =
      EvParse # tr0 @ EvHeaderMAC fk0 # pev \<and> EvReadNonce \<in> set pev"
    by blast
  from Decrypt_header_MAC [OF a parse0 c(2) l, of deps0 pl0] m n
  have bad: "snd (Decrypt deps0 reader0 (Inr (?bad, pl0)) ids0) = Inl (Err ''bad header MAC'')"
    by blast
  show ?thesis
    using a parse0 c loop_hdr0 mac_hdr0 good l m n bad by blast
qed

section \<open>The stanza limit\<close>

text \<open>
  C8. When the header parses and has more than 20 stanzas, \<^verbatim>\<open>Decrypt\<close> fails for
  every identity list, and none of its calls is a \<^verbatim>\<open>Match\<close>, an \<^verbatim>\<open>Unwrap\<close> or a
  call of scrypt; with a non-empty identity list the only call is the parse and the
  error is "too many recipients".
\<close>

theorem Decrypt_too_many:
  assumes parse: "Parse io src = Inr (hdr, payload)"
    and many: "20 < length (Recipients hdr)"
  shows "(\<exists>err. snd (Decrypt d io src identities) = Inl err) \<and>
    list_all (\<lambda>e. \<not> is_call e) (fst (Decrypt d io src identities)) \<and>
    (identities \<noteq> [] \<longrightarrow>
       Decrypt d io src identities = ([EvParse], Inl (Err ''too many recipients'')))"
  using assms by (simp add: Decrypt_def is_call_def)

theorem Decrypt_too_many_witness:
  "Parse reader0 (Inr (hdr21, pl0)) = Inr (hdr21, pl0) \<and>
   20 < length (Recipients hdr21) \<and>
   ids0 \<noteq> [] \<and>
   Decrypt deps0 reader0 (Inr (hdr21, pl0)) ids0 = ([EvParse], Inl (Err ''too many recipients''))"
proof -
  have b: "20 < length (Recipients hdr21)" by (simp add: hdr21_def)
  have a: "ids0 \<noteq> []" by (simp add: ids0_def)
  from Decrypt_too_many [OF parse0 b, of deps0 pl0 ids0] a
  have "Decrypt deps0 reader0 (Inr (hdr21, pl0)) ids0 =
      ([EvParse], Inl (Err ''too many recipients''))"
    by blast
  then show ?thesis using parse0 a b by blast
qed

section \<open>A header without stanzas\<close>

lemma try_identities_nil:
  assumes "list_all nil_key (map (\<lambda>(j, i). (r, j, i))
       (filter (\<lambda>(j, i). IType i = Type r) (enumerate j ids)))"
    and "try_identities r j ids None = (ev, Continue fk)"
  shows "fk = None"
  using assms
proof (induction ids arbitrary: j ev)
  case Nil
  then show ?case by simp
next
  case (Cons i ids)
  show ?case
  proof (cases "IType i = Type r")
    case False
    then show ?thesis using Cons.IH [of "Suc j" ev] Cons.prems by simp
  next
    case True
    then have rest: "list_all nil_key (map (\<lambda>(j, i). (r, j, i))
       (filter (\<lambda>(j, i). IType i = Type r) (enumerate (Suc j) ids)))"
      and nk: "nil_key (r, j, i)"
      using Cons.prems(1) by simp_all
    obtain uev k e where u: "IUnwrap i r = (uev, (k, e))" by (cases "IUnwrap i r") auto
    have cu: "\<And>ev'. call_Unwrap r j i (try_identities r (Suc j) ids) = (ev', Continue fk)
        \<Longrightarrow> fk = None"
    proof -
      fix ev'
      assume a: "call_Unwrap r j i (try_identities r (Suc j) ids) = (ev', Continue fk)"
      then have e: "e = Some ErrIncorrectIdentity"
        using u by (cases e) (auto split: if_splits)
      then have "k = None" using nk u by (simp add: nil_key_def)
      then obtain ev'' where "try_identities r (Suc j) ids None = (ev'', Continue fk)"
        using a u e by (cases "try_identities r (Suc j) ids None") auto
      then show "fk = None" using Cons.IH [OF rest] by blast
    qed
    show ?thesis
    proof (cases "IMatch i")
      case None
      then show ?thesis using True Cons.prems(2) cu by (simp del: call_Unwrap.simps)
    next
      case (Some m)
      show ?thesis
      proof (cases "m r")
        case None
        then obtain ev' where
          "call_Unwrap r j i (try_identities r (Suc j) ids) = (ev', Continue fk)"
          using True Some Cons.prems(2)
          by (cases "call_Unwrap r j i (try_identities r (Suc j) ids)")
            (auto simp del: call_Unwrap.simps)
        then show ?thesis using cu by blast
      next
        case (Some err)
        then obtain ev' where "try_identities r (Suc j) ids None = (ev', Continue fk)"
          using True \<open>IMatch i = Some m\<close> Cons.prems(2)
          by (cases "try_identities r (Suc j) ids None") (auto split: if_splits)
        then show ?thesis using Cons.IH [OF rest] by blast
      qed
    qed
  qed
qed

lemma RecipientsLoop_nil:
  assumes "list_all nil_key (candidates rs ids)"
    and "list_all (lone_scrypt n) rs"
    and "first_outcome (candidates rs ids) = (tr, Incorrect)"
  shows "RecipientsLoop n rs ids None = (tr, Inr None)"
  using assms
proof (induction rs arbitrary: tr)
  case Nil
  then show ?case by (simp add: candidates_def)
next
  case (Cons r rs)
  then have guard: "\<not> (Type r = ''scrypt'' \<and> n \<noteq> 1)" by (simp add: lone_scrypt_def)
  obtain ev sc where t: "try_identities r 0 ids None = (ev, sc)"
    by (cases "try_identities r 0 ids None") auto
  have c: "first_outcome (candidates_of r ids) = (ev, scan_outcome sc)"
    using try_identities_scan [of r 0 ids None] by (simp add: t candidates_of_def)
  obtain tr' out' where r: "first_outcome (candidates rs ids) = (tr', out')"
    by (cases "first_outcome (candidates rs ids)") auto
  have whole: "(tr, Incorrect) =
      (case (ev, scan_outcome sc) of
         (ev, Incorrect) \<Rightarrow> emit ev (tr', out')
       | (ev, out) \<Rightarrow> (ev, out))"
    using Cons.prems(3) by (simp add: candidates_Cons first_outcome_append c r)
  then obtain fk where sc: "sc = Continue fk" by (cases sc) auto
  then have eq: "tr = ev @ tr'" "out' = Incorrect" using whole by simp_all
  have "list_all nil_key (candidates_of r ids)"
    using Cons.prems(1) by (simp add: candidates_Cons)
  then have "fk = None"
    using try_identities_nil [of r 0 ids ev fk] t sc by (simp add: candidates_of_def)
  moreover have "RecipientsLoop n rs ids None = (tr', Inr None)"
    using Cons.IH [of tr'] Cons.prems(1,2) r eq by (simp add: candidates_Cons)
  ultimately show ?case
    using guard t sc eq by auto
qed

text \<open>
  C9. With a non-empty identity list, \<^verbatim>\<open>Decrypt\<close> on a parsed header of no stanza
  calls nothing but the parse and fails with "no identity matched a recipient". That is
  the error of a header of at most 20 stanzas, none of them an scrypt stanza among
  others, on which every candidate is an incorrect identity that returns the nil key.
\<close>

theorem Decrypt_no_stanza:
  "(identities \<noteq> [] \<and> Parse io src = Inr (hdr, payload) \<and> Recipients hdr = [] \<longrightarrow>
      Decrypt d io src identities =
        ([EvParse], Inl (Err ''no identity matched a recipient''))) \<and>
   (identities \<noteq> [] \<and> Parse io src = Inr (hdr, payload) \<and> length (Recipients hdr) \<le> 20 \<and>
    list_all (lone_scrypt (length (Recipients hdr))) (Recipients hdr) \<and>
    list_all nil_key (candidates (Recipients hdr) identities) \<and>
    first_outcome (candidates (Recipients hdr) identities) = (tr, Incorrect) \<longrightarrow>
      Decrypt d io src identities =
        (EvParse # tr, Inl (Err ''no identity matched a recipient'')))"
proof (intro conjI impI)
  assume "identities \<noteq> [] \<and> Parse io src = Inr (hdr, payload) \<and> Recipients hdr = []"
  then show "Decrypt d io src identities =
      ([EvParse], Inl (Err ''no identity matched a recipient''))"
    by (simp add: Decrypt_def)
next
  assume a: "identities \<noteq> [] \<and> Parse io src = Inr (hdr, payload) \<and>
    length (Recipients hdr) \<le> 20 \<and>
    list_all (lone_scrypt (length (Recipients hdr))) (Recipients hdr) \<and>
    list_all nil_key (candidates (Recipients hdr) identities) \<and>
    first_outcome (candidates (Recipients hdr) identities) = (tr, Incorrect)"
  then have "RecipientsLoop (length (Recipients hdr)) (Recipients hdr) identities None =
      (tr, Inr None)"
    by (intro RecipientsLoop_nil) simp_all
  then show "Decrypt d io src identities =
      (EvParse # tr, Inl (Err ''no identity matched a recipient''))"
    using a by (simp add: Decrypt_loop [of identities io src hdr payload])
qed

theorem Decrypt_no_stanza_witness:
  "ids0 \<noteq> [] \<and>
   Parse reader0 (Inr (\<lparr>Recipients = [], MAC = []\<rparr>, pl0)) = Inr (\<lparr>Recipients = [], MAC = []\<rparr>, pl0) \<and>
   Decrypt deps0 reader0 (Inr (\<lparr>Recipients = [], MAC = []\<rparr>, pl0)) ids0 =
     ([EvParse], Inl (Err ''no identity matched a recipient'')) \<and>
   Parse reader0 (Inr (\<lparr>Recipients = [l1], MAC = []\<rparr>, pl0)) = Inr (\<lparr>Recipients = [l1], MAC = []\<rparr>, pl0) \<and>
   first_outcome (candidates [l1] ids0) =
     ([EvMatch 1 l1, EvUnwrap 1 l1, EvUnwrap 2 l1], Incorrect) \<and>
   Decrypt deps0 reader0 (Inr (\<lparr>Recipients = [l1], MAC = []\<rparr>, pl0)) ids0 =
     ([EvParse, EvMatch 1 l1, EvUnwrap 1 l1, EvUnwrap 2 l1],
      Inl (Err ''no identity matched a recipient''))"
proof -
  let ?e = "\<lparr>Recipients = [], MAC = []\<rparr>"
  let ?h = "\<lparr>Recipients = [l1], MAC = []\<rparr>"
  have a: "ids0 \<noteq> []" by (simp add: ids0_def)
  have sc: "first_outcome (candidates [l1] ids0) =
      ([EvMatch 1 l1, EvUnwrap 1 l1, EvUnwrap 2 l1], Incorrect)"
    by (simp add: ids0_def candidates_def candidates_of_def probe_def unwrap_outcome_def
        sample_eval)
  have nk: "list_all nil_key (candidates [l1] ids0)"
    by (simp add: ids0_def candidates_def candidates_of_def nil_key_def sample_eval)
  have lone: "list_all (lone_scrypt (length [l1])) [l1]"
    by (simp add: lone_scrypt_def)
  from Decrypt_no_stanza [where identities = ids0 and io = reader0 and src = "Inr (?e, pl0)"
      and hdr = ?e and payload = pl0 and d = deps0] a parse0
  have x: "Decrypt deps0 reader0 (Inr (?e, pl0)) ids0 =
      ([EvParse], Inl (Err ''no identity matched a recipient''))"
    by simp
  from Decrypt_no_stanza [where identities = ids0 and io = reader0 and src = "Inr (?h, pl0)"
      and hdr = ?h and payload = pl0 and d = deps0
      and tr = "[EvMatch 1 l1, EvUnwrap 1 l1, EvUnwrap 2 l1]"] a parse0 sc nk lone
  have y: "Decrypt deps0 reader0 (Inr (?h, pl0)) ids0 =
      ([EvParse, EvMatch 1 l1, EvUnwrap 1 l1, EvUnwrap 2 l1],
       Inl (Err ''no identity matched a recipient''))"
    by simp
  show ?thesis
    using a parse0 sc x y by blast
qed

section \<open>Failures of Encrypt\<close>

lemma wrap_recipients_append:
  "wrap_recipients n i (pre @ rest) fileKey acc g =
     (case wrap_recipients n i pre fileKey acc g of
        ((ev, Inl err), g') \<Rightarrow> ((ev, Inl err), g')
      | ((ev, Inr blocks), g') \<Rightarrow>
          (case wrap_recipients n (i + length pre) rest fileKey blocks g' of
             (out, g'') \<Rightarrow> (emit ev out, g'')))"
proof (induction pre arbitrary: i acc g)
  case Nil
  then show ?case by (simp split: prod.splits)
next
  case (Cons r pre)
  show ?case
  proof (cases "RType r = ''scrypt'' \<and> n \<noteq> 1")
    case True
    then show ?thesis by simp
  next
    case False
    obtain res g1 where w: "RWrap r fileKey g = (res, g1)" by (cases "RWrap r fileKey g") auto
    show ?thesis
    proof (cases res)
      case (Inl err)
      then show ?thesis using False w by simp
    next
      case (Inr block)
      then show ?thesis
        using False w Cons.IH [of "Suc i" "acc @ [block]" g1]
        by (auto split: prod.splits sum.splits)
    qed
  qed
qed

lemma wrap_recipients_no_write:
  "list_all (\<lambda>e. \<not> is_write e) (fst (fst (wrap_recipients n i rs fileKey acc g)))"
proof (induction rs arbitrary: i acc g)
  case Nil
  then show ?case by simp
next
  case (Cons r rs)
  obtain res g1 where w: "RWrap r fileKey g = (res, g1)" by (cases "RWrap r fileKey g") auto
  show ?case
  proof (cases res)
    case (Inl err)
    then show ?thesis using w by (simp add: is_write_def)
  next
    case (Inr block)
    then show ?thesis
      using w Cons.IH [of "Suc i" "acc @ [block]" g1]
      by (auto simp: is_write_def split: prod.splits)
  qed
qed

lemma wrap_recipients_scrypt:
  assumes "r \<in> set rs" "RType r = ''scrypt''" "n \<noteq> 1"
  shows "\<exists>err. snd (fst (wrap_recipients n i rs fileKey acc g)) = Inl err"
  using assms(1)
proof (induction rs arbitrary: i acc g)
  case Nil
  then show ?case by simp
next
  case (Cons x rs)
  show ?case
  proof (cases "RType x = ''scrypt''")
    case True
    then show ?thesis using assms(3) by simp
  next
    case False
    then have mem: "r \<in> set rs" using Cons.prems assms(2) by auto
    obtain res g1 where w: "RWrap x fileKey g = (res, g1)" by (cases "RWrap x fileKey g") auto
    show ?thesis
    proof (cases res)
      case (Inl err)
      then show ?thesis using False w by simp
    next
      case (Inr block)
      then show ?thesis
        using False w Cons.IH [OF mem, of "Suc i" "acc @ [block]" g1]
        by (auto split: prod.splits)
    qed
  qed
qed

lemma sample_recipients:
  "RType rc_x0 = ''X25519''" "RWrap rc_x0 = X25519Recipient_Wrap deps0 rand0 (Recipient x0)"
  "RType rc_s0 = ''scrypt''" "RWrap rc_s0 fileKey g = (Inr s0, g)"
  "RType rc_f0 = ''X25519''" "RWrap rc_f0 fileKey g = (Inl (Err ''no key''), g)"
  by (simp_all add: rc_x0_def rc_s0_def rc_f0_def X25519Recipient_recipient_def)

lemma wrap_x0: "\<exists>block. X25519Recipient_Wrap deps0 rand0 (Recipient x0) (replicate 16 5) 4 =
    (Inr block, 3)"
  by (simp add: X25519Recipient_Wrap_def rand0_def ScalarSize_def fill_def Recipient_def x0_def
        deps0_def dh_def add_bytes_def Basepoint_def seal_def replicate_32)

text \<open>
  C7. \<^verbatim>\<open>Encrypt\<close> with no recipient fails with "no recipients specified", having
  called nothing. With a recipient of type scrypt in a list of another length than 1 it
  fails, none of its calls writes to the destination and the destination is as it was.
  When the file key is drawn, the recipients before index \<open>i\<close> wrap it, and the
  \<^verbatim>\<open>Wrap\<close> of recipient \<open>i\<close> fails, \<^verbatim>\<open>Encrypt\<close> fails with "failed to wrap key
  for recipient #i" followed by that error, and the destination is as it was.
\<close>

theorem Encrypt_failures:
  "Encrypt d rand_Read io dst [] g = (([], Inl (Err ''no recipients specified'')), g, dst) \<and>
   (r \<in> set recipients \<and> RType r = ''scrypt'' \<and> length recipients \<noteq> 1 \<longrightarrow>
      (\<exists>err. snd (fst (Encrypt d rand_Read io dst recipients g)) = Inl err) \<and>
      list_all (\<lambda>e. \<not> is_write e) (fst (fst (Encrypt d rand_Read io dst recipients g))) \<and>
      snd (snd (Encrypt d rand_Read io dst recipients g)) = dst) \<and>
   (recipients = pre @ r # post \<and> rand_Read g 16 = (Inr rnd, g1) \<and>
    wrap_recipients (length recipients) 0 pre (fill 16 rnd) [] g1 = ((ev, Inr blocks), g2) \<and>
    \<not> (RType r = ''scrypt'' \<and> length recipients \<noteq> 1) \<and>
    RWrap r (fill 16 rnd) g2 = (Inl err, g3) \<longrightarrow>
      Encrypt d rand_Read io dst recipients g =
        ((ev @ [EvWrap (length pre)],
          Inl (Err (''failed to wrap key for recipient #'' @ Itoa (int (length pre)) @ '': '' @
                    Error err))),
         g3, dst))"
proof (intro conjI impI)
  show "Encrypt d rand_Read io dst [] g = (([], Inl (Err ''no recipients specified'')), g, dst)"
    by (simp add: Encrypt_def)
next
  assume a: "r \<in> set recipients \<and> RType r = ''scrypt'' \<and> length recipients \<noteq> 1"
  then have ne: "recipients \<noteq> []" by auto
  obtain res g1 where rd: "rand_Read g 16 = (res, g1)" by (cases "rand_Read g 16") auto
  show "\<exists>err. snd (fst (Encrypt d rand_Read io dst recipients g)) = Inl err"
  proof (cases res)
    case (Inl e)
    then show ?thesis using ne rd by (simp add: Encrypt_def)
  next
    case (Inr rnd)
    obtain err where "snd (fst (wrap_recipients (length recipients) 0 recipients
        (fill 16 rnd) [] g1)) = Inl err"
      using wrap_recipients_scrypt [of r recipients "length recipients"] a by blast
    then show ?thesis
      using ne rd Inr by (auto simp: Encrypt_def Let_def split: prod.splits sum.splits)
  qed
  show "list_all (\<lambda>e. \<not> is_write e) (fst (fst (Encrypt d rand_Read io dst recipients g)))"
  proof (cases res)
    case (Inl e)
    then show ?thesis using ne rd by (simp add: Encrypt_def)
  next
    case (Inr rnd)
    obtain wev err g2 where w: "wrap_recipients (length recipients) 0 recipients
        (fill 16 rnd) [] g1 = ((wev, Inl err), g2)"
      using wrap_recipients_scrypt [of r recipients "length recipients" 0 "fill 16 rnd" "[]" g1] a
      by (cases "wrap_recipients (length recipients) 0 recipients (fill 16 rnd) [] g1") auto
    have "list_all (\<lambda>e. \<not> is_write e) wev"
      using wrap_recipients_no_write [of "length recipients" 0 recipients "fill 16 rnd" "[]" g1]
      by (simp add: w)
    then show ?thesis
      using ne rd Inr w by (simp add: Encrypt_def)
  qed
  show "snd (snd (Encrypt d rand_Read io dst recipients g)) = dst"
  proof (cases res)
    case (Inl e)
    then show ?thesis using ne rd by (simp add: Encrypt_def)
  next
    case (Inr rnd)
    obtain wev err g2 where w: "wrap_recipients (length recipients) 0 recipients
        (fill 16 rnd) [] g1 = ((wev, Inl err), g2)"
      using wrap_recipients_scrypt [of r recipients "length recipients" 0 "fill 16 rnd" "[]" g1] a
      by (cases "wrap_recipients (length recipients) 0 recipients (fill 16 rnd) [] g1") auto
    then show ?thesis
      using ne rd Inr by (simp add: Encrypt_def)
  qed
next
  assume a: "recipients = pre @ r # post \<and> rand_Read g 16 = (Inr rnd, g1) \<and>
    wrap_recipients (length recipients) 0 pre (fill 16 rnd) [] g1 = ((ev, Inr blocks), g2) \<and>
    \<not> (RType r = ''scrypt'' \<and> length recipients \<noteq> 1) \<and>
    RWrap r (fill 16 rnd) g2 = (Inl err, g3)"
  then have ne: "recipients \<noteq> []" by auto
  have "wrap_recipients (length recipients) 0 (pre @ r # post) (fill 16 rnd) [] g1 =
      ((ev @ [EvWrap (length pre)],
        Inl (Err (''failed to wrap key for recipient #'' @ Itoa (int (length pre)) @ '': '' @
                  Error err))), g3)"
    using a by (auto simp: wrap_recipients_append)
  then show "Encrypt d rand_Read io dst recipients g =
        ((ev @ [EvWrap (length pre)],
          Inl (Err (''failed to wrap key for recipient #'' @ Itoa (int (length pre)) @ '': '' @
                    Error err))),
         g3, dst)"
    using a ne by (simp add: Encrypt_def)
qed

theorem Encrypt_failures_witness:
  "Encrypt deps0 rand0 writer0 [] [] 5 = (([], Inl (Err ''no recipients specified'')), 5, []) \<and>
   rc_s0 \<in> set [rc_x0, rc_s0] \<and> RType rc_s0 = ''scrypt'' \<and> length [rc_x0, rc_s0] \<noteq> 1 \<and>
   (\<exists>err. snd (fst (Encrypt deps0 rand0 writer0 [] [rc_x0, rc_s0] 5)) = Inl err) \<and>
   list_all (\<lambda>e. \<not> is_write e) (fst (fst (Encrypt deps0 rand0 writer0 [] [rc_x0, rc_s0] 5))) \<and>
   snd (snd (Encrypt deps0 rand0 writer0 [] [rc_x0, rc_s0] 5)) = [] \<and>
   rand0 5 16 = (Inr (replicate 16 5), 4) \<and>
   (\<exists>blocks. wrap_recipients (length [rc_x0, rc_f0]) 0 [rc_x0] (fill 16 (replicate 16 5)) [] 4 =
      (([EvWrap 0], Inr blocks), 3)) \<and>
   RWrap rc_f0 (fill 16 (replicate 16 5)) 3 = (Inl (Err ''no key''), 3) \<and>
   Encrypt deps0 rand0 writer0 [] [rc_x0, rc_f0] 5 =
     (([EvWrap 0, EvWrap 1],
       Inl (Err (''failed to wrap key for recipient #'' @ Itoa 1 @ '': '' @ ''no key''))), 3, [])"
proof -
  have a: "Encrypt deps0 rand0 writer0 [] [] 5 =
      (([], Inl (Err ''no recipients specified'')), 5, [])"
    using Encrypt_failures [of deps0 rand0 writer0 "[]" 5] by blast
  have h: "rc_s0 \<in> set [rc_x0, rc_s0]" "RType rc_s0 = ''scrypt''" "length [rc_x0, rc_s0] \<noteq> 1"
    by (simp_all add: sample_recipients)
  have b: "(\<exists>err. snd (fst (Encrypt deps0 rand0 writer0 [] [rc_x0, rc_s0] 5)) = Inl err) \<and>
      list_all (\<lambda>e. \<not> is_write e) (fst (fst (Encrypt deps0 rand0 writer0 [] [rc_x0, rc_s0] 5))) \<and>
      snd (snd (Encrypt deps0 rand0 writer0 [] [rc_x0, rc_s0] 5)) = []"
    using Encrypt_failures [where d = deps0 and rand_Read = rand0 and io = writer0 and dst = "[]"
        and g = 5 and r = rc_s0 and recipients = "[rc_x0, rc_s0]"] h
    by blast
  have rd: "rand0 5 16 = (Inr (replicate 16 5), 4)" by (simp add: rand0_def)
  have fl: "fill 16 (replicate 16 5) = replicate 16 5" by (simp add: fill_def)
  obtain block where
    wb: "X25519Recipient_Wrap deps0 rand0 (Recipient x0) (replicate 16 5) 4 = (Inr block, 3)"
    using wrap_x0 by blast
  have w: "wrap_recipients (length [rc_x0, rc_f0]) 0 [rc_x0] (fill 16 (replicate 16 5)) [] 4 =
      (([EvWrap 0], Inr [block]), 3)"
    by (simp add: sample_recipients fl wb)
  have f: "RWrap rc_f0 (fill 16 (replicate 16 5)) 3 = (Inl (Err ''no key''), 3)"
    by (simp add: sample_recipients)
  have g: "\<not> (RType rc_f0 = ''scrypt'' \<and> length [rc_x0, rc_f0] \<noteq> 1)"
    by (simp add: sample_recipients)
  have s: "[rc_x0, rc_f0] = [rc_x0] @ rc_f0 # []" by simp
  have "Encrypt deps0 rand0 writer0 [] [rc_x0, rc_f0] 5 =
      (([EvWrap 0] @ [EvWrap (length [rc_x0])],
        Inl (Err (''failed to wrap key for recipient #'' @ Itoa (int (length [rc_x0])) @ '': '' @
                  Error (Err ''no key'')))), 3, [])"
    using Encrypt_failures [where d = deps0 and rand_Read = rand0 and io = writer0 and dst = "[]"
        and g = 5 and r = rc_f0 and recipients = "[rc_x0, rc_f0]" and pre = "[rc_x0]"
        and post = "[]" and rnd = "replicate 16 5" and ?g1.0 = 4 and ev = "[EvWrap 0]"
        and blocks = "[block]" and ?g2.0 = 3 and err = "Err ''no key''" and ?g3.0 = 3]
      s rd w f g
    by blast
  then have c: "Encrypt deps0 rand0 writer0 [] [rc_x0, rc_f0] 5 =
     (([EvWrap 0, EvWrap 1],
       Inl (Err (''failed to wrap key for recipient #'' @ Itoa 1 @ '': '' @ ''no key''))), 3, [])"
    by simp
  show ?thesis
    using a h b rd w f c by blast
qed

section \<open>The identities of the package\<close>

lemma sample_constructors:
  "NewScryptRecipient ''pw'' = Inr r0" "NewScryptIdentity ''pw'' = Inr i0"
  by (simp_all add: NewScryptRecipient_def NewScryptIdentity_def r0_def i0_def)

text \<open>
  Both identities of the package return the nil key with every error, so the last clause
  of the theorem on headers that nothing unwraps applies to them.
\<close>

lemma X25519Identity_nil_key: "nil_key (r, j, X25519Identity_identity d i)"
proof (cases "Type r = ''X25519''")
  case False
  then show ?thesis
    by (simp add: nil_key_def X25519Identity_identity_def X25519Identity_Unwrap_def)
next
  case t: True
  show ?thesis
  proof (cases "\<exists>a0 publicKey. Args r = [a0] \<and> DecodeString d a0 = Inr publicKey \<and>
          length publicKey = PointSize")
    case False
    from x25519_malformed [OF t False, of i] obtain m
      where "X25519Identity_Unwrap d i r = (None, Some (Err m))" by blast
    then show ?thesis by (simp add: nil_key_def X25519Identity_identity_def)
  next
    case True
    then obtain a0 publicKey where w: "Args r = [a0]" "DecodeString d a0 = Inr publicKey"
      "length publicKey = PointSize" by blast
    show ?thesis
      by (simp add: nil_key_def X25519Identity_identity_def x25519_well_formed [OF t w] fatal_def
          split: sum.splits)
  qed
qed

lemma ScryptIdentity_nil_key: "nil_key (r, j, ScryptIdentity_identity d i)"
proof (cases "Type r = ''scrypt''")
  case False
  then show ?thesis
    by (simp add: nil_key_def ScryptIdentity_identity_def ScryptIdentity_Unwrap_def)
next
  case t: True
  show ?thesis
  proof (cases "\<exists>a0 a1 salt logN. Args r = [a0, a1] \<and> DecodeString d a0 = Inr salt \<and>
          length salt = 16 \<and> Atoi d a1 = Inr logN \<and> 0 < logN \<and> logN \<le> maxWorkFactor i")
    case False
    from scrypt_malformed [OF t False] obtain m
      where "ScryptIdentity_Unwrap d i r = ([], fatal m)" by blast
    then show ?thesis by (simp add: nil_key_def ScryptIdentity_identity_def fatal_def)
  next
    case True
    then obtain a0 a1 salt logN where w: "Args r = [a0, a1]" "DecodeString d a0 = Inr salt"
      "length salt = 16" "Atoi d a1 = Inr logN" and rng: "0 < logN" "logN \<le> maxWorkFactor i"
      by blast
    show ?thesis
      using rng
      by (simp add: nil_key_def ScryptIdentity_identity_def scrypt_well_formed [OF t w] fatal_def
          split: sum.splits)
  qed
qed

end
